theory Spec2Isabelle
  imports Complex_Main "HOL-Library.Sublist"
begin

section \<open>Conventions of the embedding\<close>

text \<open>
  The theory embeds the invoice pipeline of the LetsPrint application: the GST calculator
  (\<^verbatim>\<open>gstCalculator.ts\<close>), the GST service, the bulk queue processor, the file storage
  service, the download route and the print route.

  \<^item> A JavaScript \<^verbatim>\<open>number\<close> is modelled by an exact rational (\<^typ>\<open>rat\<close>): \<^verbatim>\<open>NaN\<close> and the
    infinities are outside the model, and arithmetic is exact where binary64 rounds.
    \<^verbatim>\<open>Math.round\<close> rounds half up, towards plus infinity.
  \<^item> A JavaScript string is a list of 8-bit code units (\<^typ>\<open>string\<close>). Case mapping acts on
    the ASCII letters, and \<^verbatim>\<open>trim\<close> strips the white space and line terminators below 256.
  \<^item> An optional field (\<^verbatim>\<open>f?: T\<close>) is an \<^typ>\<open>'a option\<close>; a thrown exception is the left
    summand of a sum type, carrying the message of the \<^verbatim>\<open>Error\<close>.
  \<^item> Two interfaces of the source share the field names \<^verbatim>\<open>hsnCode\<close> and \<^verbatim>\<open>orderId\<close>; the
    calculation context carries them as \<open>hsnCodeIn\<close> and \<open>orderIdIn\<close>. Source names that
    are reserved words here carry a suffix (\<open>includesStr\<close>, \<open>inputOf\<close>, \<open>outputOf\<close>).
\<close>

section \<open>The model\<close>

subsection \<open>Strings\<close>

definition isWhitespace :: "char \<Rightarrow> bool" where
  "isWhitespace c = ((of_char c :: nat) \<in> {9, 10, 11, 12, 13, 32, 160})"

definition trim :: "string \<Rightarrow> string" where
  "trim s = rev (dropWhile isWhitespace (rev (dropWhile isWhitespace s)))"

definition toUpperChar :: "char \<Rightarrow> char" where
  "toUpperChar c =
     (if 97 \<le> (of_char c :: nat) \<and> (of_char c :: nat) \<le> 122
      then char_of ((of_char c :: nat) - 32) else c)"

definition toLowerChar :: "char \<Rightarrow> char" where
  "toLowerChar c =
     (if 65 \<le> (of_char c :: nat) \<and> (of_char c :: nat) \<le> 90
      then char_of ((of_char c :: nat) + 32) else c)"

definition toUpperCase :: "string \<Rightarrow> string" where
  "toUpperCase s = map toUpperChar s"

definition toLowerCase :: "string \<Rightarrow> string" where
  "toLowerCase s = map toLowerChar s"

text \<open>\<^verbatim>\<open>s.includes(t)\<close>, named \<open>includesStr\<close> here: \<open>t\<close> occurs in \<open>s\<close> as a
  contiguous block.\<close>

definition includesStr :: "string \<Rightarrow> string \<Rightarrow> bool" where
  "includesStr s t = sublist t s"

text \<open>\<^verbatim>\<open>xs.join(sep)\<close>.\<close>

fun joinWith :: "string \<Rightarrow> string list \<Rightarrow> string" where
  "joinWith sep [] = []"
| "joinWith sep [x] = x"
| "joinWith sep (x # y # ys) = x @ sep @ joinWith sep (y # ys)"

subsection \<open>Constants of the GST calculator\<close>

record GSTRateConfig =
  threshold :: rat
  lowRate :: rat
  highRate :: rat

definition DEFAULT_GST_CONFIG :: GSTRateConfig where
  "DEFAULT_GST_CONFIG = \<lparr> threshold = 1000, lowRate = 5 / 100, highRate = 12 / 100 \<rparr>"

record HSNCodeMapping =
  textiles :: string
  cotton :: string
  polyester :: string
  blend :: string
  default :: string

definition TEXTILE_HSN_CODES :: HSNCodeMapping where
  "TEXTILE_HSN_CODES =
     \<lparr> textiles = ''6109'', cotton = ''6109.10'', polyester = ''6109.90'',
       blend = ''6109.90'', default = ''6109'' \<rparr>"

text \<open>The state table, as an association list from the state code to name and GST code.\<close>

definition INDIAN_STATES :: "(string \<times> string \<times> string) list" where
  "INDIAN_STATES =
    [(''AN'', ''Andaman and Nicobar Islands'', ''35''),
     (''AP'', ''Andhra Pradesh'', ''28''),
     (''AR'', ''Arunachal Pradesh'', ''12''),
     (''AS'', ''Assam'', ''18''),
     (''BR'', ''Bihar'', ''10''),
     (''CH'', ''Chandigarh'', ''04''),
     (''CG'', ''Chhattisgarh'', ''22''),
     (''DN'', ''Dadra and Nagar Haveli'', ''26''),
     (''DD'', ''Daman and Diu'', ''25''),
     (''DL'', ''Delhi'', ''07''),
     (''GA'', ''Goa'', ''30''),
     (''GJ'', ''Gujarat'', ''24''),
     (''HR'', ''Haryana'', ''06''),
     (''HP'', ''Himachal Pradesh'', ''02''),
     (''JK'', ''Jammu and Kashmir'', ''01''),
     (''JH'', ''Jharkhand'', ''20''),
     (''KA'', ''Karnataka'', ''29''),
     (''KL'', ''Kerala'', ''32''),
     (''LD'', ''Lakshadweep'', ''31''),
     (''MP'', ''Madhya Pradesh'', ''23''),
     (''MH'', ''Maharashtra'', ''27''),
     (''MN'', ''Manipur'', ''14''),
     (''ML'', ''Meghalaya'', ''17''),
     (''MZ'', ''Mizoram'', ''15''),
     (''NL'', ''Nagaland'', ''13''),
     (''OR'', ''Odisha'', ''21''),
     (''PY'', ''Puducherry'', ''34''),
     (''PB'', ''Punjab'', ''03''),
     (''RJ'', ''Rajasthan'', ''08''),
     (''SK'', ''Sikkim'', ''11''),
     (''TN'', ''Tamil Nadu'', ''33''),
     (''TG'', ''Telangana'', ''36''),
     (''TR'', ''Tripura'', ''16''),
     (''UP'', ''Uttar Pradesh'', ''09''),
     (''UT'', ''Uttarakhand'', ''05''),
     (''WB'', ''West Bengal'', ''19'')]"

text \<open>\<^verbatim>\<open>INDIAN_STATES[key]\<close> is truthy exactly for the keys of the table: every key the
  source looks up is upper-cased, and no inherited property name is.\<close>

definition isIndianState :: "string \<Rightarrow> bool" where
  "isIndianState key = (map_of INDIAN_STATES key \<noteq> None)"

subsection \<open>Types of the GST calculator\<close>

datatype GSTType = CGST_SGST | IGST

record GSTCalculationContext =
  orderTotal :: rat
  subtotal :: rat
  customerState :: string
  storeState :: string
  productType :: "string option"
  hsnCodeIn :: "string option"
  isExempt :: "bool option"
  orderIdIn :: "string option"

record GSTBreakdown =
  gstType :: GSTType
  gstRate :: rat
  cgstAmount :: "rat option"
  sgstAmount :: "rat option"
  igstAmount :: "rat option"
  totalGstAmount :: rat
  taxableAmount :: rat
  hsnCode :: "string option"

record GSTAuditTrail =
  calculationId :: string
  orderId :: string
  timestamp :: string
  inputOf :: GSTCalculationContext
  outputOf :: GSTBreakdown
  version :: string

datatype GSTCalculationResult =
    Success GSTBreakdown GSTAuditTrail
  | Failure string string

text \<open>What \<^verbatim>\<open>Date.now()\<close>, \<^verbatim>\<open>new Date().toISOString()\<close> and
  \<^verbatim>\<open>Math.random().toString(36).substr(2, 9)\<close> return at the call.\<close>

record Clock =
  nowMs :: string
  nowIso :: string
  randomSuffix :: string

subsection \<open>The GST calculator\<close>

definition validateGSTContext :: "GSTCalculationContext \<Rightarrow> bool \<times> string list" where
  "validateGSTContext context =
    (let errors = [];
         errors = (if orderTotal context = 0 \<or> orderTotal context \<le> 0
                   then errors @ [''Order total must be greater than 0''] else errors);
         errors = (if subtotal context = 0 \<or> subtotal context \<le> 0
                   then errors @ [''Subtotal must be greater than 0''] else errors);
         errors = (if customerState context = [] \<or> trim (customerState context) = []
                   then errors @ [''Customer state is required''] else errors);
         errors = (if storeState context = [] \<or> trim (storeState context) = []
                   then errors @ [''Store state is required''] else errors);
         errors = (if customerState context \<noteq> []
                      \<and> \<not> isIndianState (toUpperCase (customerState context))
                   then errors @ [''Invalid customer state code: '' @ customerState context]
                   else errors);
         errors = (if storeState context \<noteq> []
                      \<and> \<not> isIndianState (toUpperCase (storeState context))
                   then errors @ [''Invalid store state code: '' @ storeState context]
                   else errors)
     in (errors = [], errors))"

definition determineGSTRate :: "rat \<Rightarrow> GSTRateConfig \<Rightarrow> rat" where
  "determineGSTRate ordTotal config =
     (if ordTotal < threshold config then lowRate config else highRate config)"

definition getHSNCode :: "string option \<Rightarrow> string option \<Rightarrow> string" where
  "getHSNCode pType hsn =
    (case (case hsn of Some h \<Rightarrow> if h \<noteq> [] \<and> trim h \<noteq> [] then Some (trim h) else None
                     | None \<Rightarrow> None) of
       Some code \<Rightarrow> code
     | None \<Rightarrow>
        (case pType of
           Some p \<Rightarrow>
             (if p \<noteq> [] then
                (let type = toLowerCase p in
                 if includesStr type ''blend'' \<or> includesStr type ''mix'' then blend TEXTILE_HSN_CODES
                 else if includesStr type ''cotton'' then cotton TEXTILE_HSN_CODES
                 else if includesStr type ''polyester'' then polyester TEXTILE_HSN_CODES
                 else default TEXTILE_HSN_CODES)
              else default TEXTILE_HSN_CODES)
         | None \<Rightarrow> default TEXTILE_HSN_CODES))"

definition normalizeStateCode :: "string \<Rightarrow> string + string" where
  "normalizeStateCode stateCode =
    (if stateCode = [] \<or> trim stateCode = [] then Inl ''State code cannot be empty''
     else let normalized = toUpperCase (trim stateCode) in
          if \<not> isIndianState normalized then Inl (''Invalid state code: '' @ stateCode)
          else Inr normalized)"

definition mathRound :: "rat \<Rightarrow> rat" where
  "mathRound x = of_int \<lfloor>x + 1 / 2\<rfloor>"

definition calculateGST :: "Clock \<Rightarrow> GSTCalculationContext \<Rightarrow> GSTCalculationResult" where
  "calculateGST clock context =
    (let validation = validateGSTContext context in
     if \<not> fst validation then Failure (joinWith '', '' (snd validation)) ''VALIDATION_ERROR''
     else
       case normalizeStateCode (customerState context) of
         Inl msg \<Rightarrow> Failure msg ''CALCULATION_ERROR''
       | Inr customerSt \<Rightarrow>
      (case normalizeStateCode (storeState context) of
         Inl msg \<Rightarrow> Failure msg ''CALCULATION_ERROR''
       | Inr storeSt \<Rightarrow>
          (let rate = determineGSTRate (orderTotal context) DEFAULT_GST_CONFIG;
               taxable = subtotal context;
               totalGst = mathRound ((taxable * rate) * 100) / 100;
               hsn = getHSNCode (productType context) (hsnCodeIn context);
               isSameState = (customerSt = storeSt);
               breakdown =
                 (if isSameState then
                    (let cgst = mathRound ((totalGst / 2) * 100) / 100;
                         sgst = mathRound ((totalGst / 2) * 100) / 100
                     in \<lparr> gstType = CGST_SGST, gstRate = rate, cgstAmount = Some cgst,
                          sgstAmount = Some sgst, igstAmount = None,
                          totalGstAmount = totalGst, taxableAmount = taxable,
                          hsnCode = Some hsn \<rparr>)
                  else
                    \<lparr> gstType = IGST, gstRate = rate, cgstAmount = None,
                      sgstAmount = None, igstAmount = Some totalGst,
                      totalGstAmount = totalGst, taxableAmount = taxable,
                      hsnCode = Some hsn \<rparr>);
               auditTrail =
                 \<lparr> calculationId = ''gst_'' @ nowMs clock @ ''_'' @ randomSuffix clock,
                   orderId = (case orderIdIn context of
                                Some i \<Rightarrow> if i = [] then ''unknown'' else i
                              | None \<Rightarrow> ''unknown''),
                   timestamp = nowIso clock,
                   inputOf = context,
                   outputOf = breakdown,
                   version = ''1.0.0'' \<rparr>
           in Success breakdown auditTrail)))"

text \<open>The breakdown a result carries, if any.\<close>

definition breakdownOf :: "GSTCalculationResult \<Rightarrow> GSTBreakdown option" where
  "breakdownOf r = (case r of Success b a \<Rightarrow> Some b | Failure e c \<Rightarrow> None)"

text \<open>Concrete inputs for the evaluations below.\<close>

definition exampleClock :: Clock where
  "exampleClock = \<lparr> nowMs = ''1730000000000'', nowIso = ''2024-10-27T03:33:20.000Z'',
                      randomSuffix = ''k3j9x0q1z'' \<rparr>"

definition gstContext :: "rat \<Rightarrow> rat \<Rightarrow> string \<Rightarrow> string \<Rightarrow> GSTCalculationContext" where
  "gstContext tot sub cust store =
     \<lparr> orderTotal = tot, subtotal = sub, customerState = cust, storeState = store,
       productType = None, hsnCodeIn = None, isExempt = None, orderIdIn = None \<rparr>"

subsection \<open>The constraints of validation, in the words of the specification\<close>

text \<open>
  A state code is present when it is not blank, and known when its normal form
  (trimmed, upper-cased) is a key of the state table. A violation is one of the six
  conditions validation reports, each with the message the source pushes for it.
\<close>

definition stateCodePresent :: "string \<Rightarrow> bool" where
  "stateCodePresent s = (trim s \<noteq> [])"

definition stateCodeKnown :: "string \<Rightarrow> bool" where
  "stateCodeKnown s = isIndianState (toUpperCase (trim s))"

datatype Violation =
    OrderTotalNotPositive | SubtotalNotPositive
  | CustomerStateMissing | StoreStateMissing
  | CustomerStateUnknown | StoreStateUnknown

fun violated :: "GSTCalculationContext \<Rightarrow> Violation \<Rightarrow> bool" where
  "violated ctx OrderTotalNotPositive = (\<not> 0 < orderTotal ctx)"
| "violated ctx SubtotalNotPositive = (\<not> 0 < subtotal ctx)"
| "violated ctx CustomerStateMissing = (\<not> stateCodePresent (customerState ctx))"
| "violated ctx StoreStateMissing = (\<not> stateCodePresent (storeState ctx))"
| "violated ctx CustomerStateUnknown =
     (stateCodePresent (customerState ctx) \<and> \<not> stateCodeKnown (customerState ctx))"
| "violated ctx StoreStateUnknown =
     (stateCodePresent (storeState ctx) \<and> \<not> stateCodeKnown (storeState ctx))"

fun messageFor :: "GSTCalculationContext \<Rightarrow> Violation \<Rightarrow> string" where
  "messageFor ctx OrderTotalNotPositive = ''Order total must be greater than 0''"
| "messageFor ctx SubtotalNotPositive = ''Subtotal must be greater than 0''"
| "messageFor ctx CustomerStateMissing = ''Customer state is required''"
| "messageFor ctx StoreStateMissing = ''Store state is required''"
| "messageFor ctx CustomerStateUnknown = ''Invalid customer state code: '' @ customerState ctx"
| "messageFor ctx StoreStateUnknown = ''Invalid store state code: '' @ storeState ctx"

text \<open>The product-type hint mentions a word (case-insensitively).\<close>

definition hintMatches :: "string option \<Rightarrow> string \<Rightarrow> bool" where
  "hintMatches pType w =
     (case pType of Some t \<Rightarrow> includesStr (toLowerCase t) w | None \<Rightarrow> False)"

text \<open>An explicit classification code is supplied and is not blank.\<close>

definition explicitCode :: "string option \<Rightarrow> bool" where
  "explicitCode hsn = (case hsn of Some h \<Rightarrow> trim h \<noteq> [] | None \<Rightarrow> False)"

text \<open>A context that violates four constraints at once.\<close>

definition badContext :: GSTCalculationContext where
  "badContext = gstContext 0 (- 100) ''  '' ''XX''"

subsection \<open>Orders, and the helpers of the order utilities the GST service reads\<close>

text \<open>
  Of a Shopify order the GST service reads the id, the two price strings, the province
  fields of the two addresses and, of each line item, the title and the properties.
  \<^verbatim>\<open>parseFloat\<close> is an argument of the functions that call it: it returns \<open>None\<close> for
  \<^verbatim>\<open>NaN\<close>. Province names that are inherited property names of a JavaScript object are
  outside the model.
\<close>

record Property =
  propName :: string
  propValue :: string

record LineItem =
  title :: string
  properties :: "Property list"
  variant_title :: "string option"

record Address =
  province :: "string option"
  province_code :: "string option"

record ShopifyOrder =
  order_id :: string
  total_price :: string
  subtotal_price :: string
  shipping_address :: "Address option"
  billing_address :: "Address option"
  line_items :: "LineItem list"

record OrderWithGST = ShopifyOrder +
  gstBreakdown :: GSTBreakdown

definition getOrderTotal :: "(string \<Rightarrow> rat option) \<Rightarrow> ShopifyOrder \<Rightarrow> rat" where
  "getOrderTotal parseFloat order =
     (case parseFloat (total_price order) of Some x \<Rightarrow> x | None \<Rightarrow> 0)"

definition getOrderSubtotal :: "(string \<Rightarrow> rat option) \<Rightarrow> ShopifyOrder \<Rightarrow> rat" where
  "getOrderSubtotal parseFloat order =
     (case parseFloat (subtotal_price order) of Some x \<Rightarrow> x | None \<Rightarrow> 0)"

text \<open>The \<^verbatim>\<open>material\<close> field of \<^verbatim>\<open>extractTShirtDetails\<close>, the one detail the GST service
  reads: the value of the last property whose lower-cased name falls through the size,
  colour and design branches and mentions material or fabric.\<close>

definition extractTShirtMaterial :: "LineItem \<Rightarrow> string option" where
  "extractTShirtMaterial lineItem =
     foldl (\<lambda>material prop.
        let key = toLowerCase (propName prop) in
        if includesStr key ''size'' then material
        else if includesStr key ''color'' \<or> includesStr key ''colour'' then material
        else if includesStr key ''design'' \<or> includesStr key ''print'' then material
        else if includesStr key ''material'' \<or> includesStr key ''fabric''
          then Some (propValue prop)
        else material)
       None (properties lineItem)"

subsection \<open>The GST service\<close>

record GSTService =
  serviceStoreState :: string

definition mapProvinceNameToCode :: "string \<Rightarrow> string" where
  "mapProvinceNameToCode provinceName =
    (let mapping =
       [(''maharashtra'', ''MH''), (''karnataka'', ''KA''), (''delhi'', ''DL''),
        (''tamil nadu'', ''TN''), (''gujarat'', ''GJ''), (''rajasthan'', ''RJ''),
        (''uttar pradesh'', ''UP''), (''west bengal'', ''WB''), (''andhra pradesh'', ''AP''),
        (''telangana'', ''TG''), (''kerala'', ''KL''), (''punjab'', ''PB''),
        (''haryana'', ''HR''), (''bihar'', ''BR''), (''odisha'', ''OR''),
        (''jharkhand'', ''JH''), (''assam'', ''AS''), (''chhattisgarh'', ''CG''),
        (''madhya pradesh'', ''MP''), (''himachal pradesh'', ''HP''),
        (''uttarakhand'', ''UT''), (''goa'', ''GA'')];
         normalized = trim (toLowerCase provinceName)
     in case map_of mapping normalized of
          Some code \<Rightarrow> code
        | None \<Rightarrow> toUpperCase (take 2 provinceName))"

text \<open>A string field is truthy when it is present and not empty.\<close>

definition truthy :: "string option \<Rightarrow> bool" where
  "truthy s = (case s of Some t \<Rightarrow> t \<noteq> [] | None \<Rightarrow> False)"

definition extractCustomerState :: "ShopifyOrder \<Rightarrow> string + string" where
  "extractCustomerState order =
    (let shipCode = Option.bind (shipping_address order) province_code;
         billCode = Option.bind (billing_address order) province_code;
         shippingProvince = Option.bind (shipping_address order) province;
         billingProvince = Option.bind (billing_address order) province
     in if truthy shipCode then Inr (toUpperCase (the shipCode))
        else if truthy billCode then Inr (toUpperCase (the billCode))
        else if truthy shippingProvince then Inr (mapProvinceNameToCode (the shippingProvince))
        else if truthy billingProvince then Inr (mapProvinceNameToCode (the billingProvince))
        else Inl (''Unable to determine customer state for order '' @ order_id order))"

fun determineProductType :: "LineItem list \<Rightarrow> string" where
  "determineProductType [] = ''textiles''"
| "determineProductType (item # items) =
     (if truthy (extractTShirtMaterial item) then the (extractTShirtMaterial item)
      else let t = toLowerCase (title item) in
           if includesStr t ''cotton'' then ''cotton''
           else if includesStr t ''polyester'' then ''polyester''
           else if includesStr t ''blend'' \<or> includesStr t ''mix'' then ''blend''
           else determineProductType items)"

definition calculateOrderGST ::
  "(string \<Rightarrow> rat option) \<Rightarrow> Clock \<Rightarrow> GSTService \<Rightarrow> ShopifyOrder \<Rightarrow> string + GSTBreakdown" where
  "calculateOrderGST parseFloat clock this order =
    (let wrap = (\<lambda>msg. ''Failed to calculate GST for order '' @ order_id order @ '': '' @ msg)
     in case extractCustomerState order of
          Inl msg \<Rightarrow> Inl (wrap msg)
        | Inr customerSt \<Rightarrow>
           (let context =
                  \<lparr> orderTotal = getOrderTotal parseFloat order,
                    subtotal = getOrderSubtotal parseFloat order,
                    customerState = customerSt,
                    storeState = serviceStoreState this,
                    productType = Some (determineProductType (line_items order)),
                    hsnCodeIn = None, isExempt = None,
                    orderIdIn = Some (order_id order) \<rparr>
            in case calculateGST clock context of
                 Failure err code \<Rightarrow> Inl (wrap (''GST calculation failed: '' @ err))
               | Success breakdown audit \<Rightarrow> Inr breakdown))"

definition addGSTToOrder ::
  "(string \<Rightarrow> rat option) \<Rightarrow> Clock \<Rightarrow> GSTService \<Rightarrow> ShopifyOrder \<Rightarrow> string + OrderWithGST" where
  "addGSTToOrder parseFloat clock this order =
    (case calculateOrderGST parseFloat clock this order of
       Inl msg \<Rightarrow> Inl msg
     | Inr breakdown \<Rightarrow> Inr (ShopifyOrder.extend order \<lparr> gstBreakdown = breakdown \<rparr>))"

definition fallbackBreakdown :: GSTBreakdown where
  "fallbackBreakdown =
     \<lparr> gstType = IGST, gstRate = 0, cgstAmount = None, sgstAmount = None,
       igstAmount = Some 0, totalGstAmount = 0, taxableAmount = 0, hsnCode = None \<rparr>"

fun addGSTToOrders ::
  "(string \<Rightarrow> rat option) \<Rightarrow> Clock \<Rightarrow> GSTService \<Rightarrow> ShopifyOrder list \<Rightarrow> OrderWithGST list" where
  "addGSTToOrders parseFloat clock this [] = []"
| "addGSTToOrders parseFloat clock this (order # orders) =
     (case addGSTToOrder parseFloat clock this order of
        Inr orderWithGST \<Rightarrow> orderWithGST
      | Inl err \<Rightarrow> ShopifyOrder.extend order \<lparr> gstBreakdown = fallbackBreakdown \<rparr>)
     # addGSTToOrders parseFloat clock this orders"

text \<open>Two orders, a parser for their price strings and a service, for the evaluations.\<close>

definition noAddressOrder :: ShopifyOrder where
  "noAddressOrder =
     \<lparr> order_id = ''1001'', total_price = ''500.00'', subtotal_price = ''450.00'',
       shipping_address = None, billing_address = None, line_items = [] \<rparr>"

definition punjabOrder :: ShopifyOrder where
  "punjabOrder =
     \<lparr> order_id = ''1002'', total_price = ''800'', subtotal_price = ''800'',
       shipping_address = Some \<lparr> province = Some ''Punjab'', province_code = None \<rparr>,
       billing_address = None,
       line_items = [\<lparr> title = ''Cotton Tee'', properties = [], variant_title = None \<rparr>] \<rparr>"

definition exampleParseFloat :: "string \<Rightarrow> rat option" where
  "exampleParseFloat s =
     (if s = ''500.00'' then Some 500 else if s = ''450.00'' then Some 450
      else if s = ''800'' then Some 800 else None)"

definition exampleService :: GSTService where
  "exampleService = \<lparr> serviceStoreState = ''MH'' \<rparr>"


subsection \<open>Paths and decimal numerals\<close>

text \<open>\<^verbatim>\<open>String(n)\<close> for a natural number and for an integer.\<close>

fun showNat :: "nat \<Rightarrow> string" where
  "showNat n = (if n < 10 then [char_of (48 + n)] else showNat (n div 10) @ [char_of (48 + n mod 10)])"

definition showInt :: "int \<Rightarrow> string" where
  "showInt i = (if i < 0 then CHR ''-'' # showNat (nat (- i)) else showNat (nat i))"

text \<open>\<^verbatim>\<open>s.split(sep)\<close> for a one-character separator.\<close>

fun splitOn :: "char \<Rightarrow> string \<Rightarrow> string list" where
  "splitOn sep [] = [[]]"
| "splitOn sep (c # cs) =
     (if c = sep then [] # splitOn sep cs
      else (case splitOn sep cs of
              seg # segs \<Rightarrow> (c # seg) # segs
            | [] \<Rightarrow> [[c]]))"

text \<open>
  The POSIX functions of Node's \<^verbatim>\<open>path\<close> module. \<open>normalizeSegments\<close> is the loop of
  \<^verbatim>\<open>normalizeString\<close>: it drops empty and \<^verbatim>\<open>.\<close> segments and lets \<^verbatim>\<open>..\<close> remove the
  segment before it; above the root \<^verbatim>\<open>..\<close> is dropped, and in a relative path it is kept.
  The accumulator holds the segments kept so far, last first.
\<close>

fun normalizeSegments :: "bool \<Rightarrow> string list \<Rightarrow> string list \<Rightarrow> string list" where
  "normalizeSegments allowAboveRoot acc [] = rev acc"
| "normalizeSegments allowAboveRoot acc (seg # segs) =
     (if seg = [] \<or> seg = ''.'' then normalizeSegments allowAboveRoot acc segs
      else if seg = ''..'' then
        (case acc of
           [] \<Rightarrow> normalizeSegments allowAboveRoot
                   (if allowAboveRoot then [''..''] else []) segs
         | prev # below \<Rightarrow>
             if prev = ''..'' then normalizeSegments allowAboveRoot (''..'' # acc) segs
             else normalizeSegments allowAboveRoot below segs)
      else normalizeSegments allowAboveRoot (seg # acc) segs)"

definition isAbsolute :: "string \<Rightarrow> bool" where
  "isAbsolute p = (p \<noteq> [] \<and> hd p = CHR ''/'')"

definition pathNormalize :: "string \<Rightarrow> string" where
  "pathNormalize p =
    (if p = [] then ''.''
     else
       let absolute = isAbsolute p;
           trailingSeparator = (last p = CHR ''/'');
           body = joinWith ''/'' (normalizeSegments (\<not> absolute) [] (splitOn CHR ''/'' p));
           body = (if body = [] \<and> \<not> absolute then ''.'' else body);
           body = (if body \<noteq> [] \<and> trailingSeparator then body @ ''/'' else body)
       in if absolute then CHR ''/'' # body else body)"

definition pathJoin :: "string list \<Rightarrow> string" where
  "pathJoin parts =
    (let joined = joinWith ''/'' (filter (\<lambda>s. s \<noteq> []) parts)
     in if joined = [] then ''.'' else pathNormalize joined)"

text \<open>\<^verbatim>\<open>path.resolve(p)\<close> in a process whose working directory is \<open>cwd\<close> (an absolute
  path): no trailing separator is kept.\<close>

definition pathResolve :: "string \<Rightarrow> string \<Rightarrow> string" where
  "pathResolve cwd p =
    (let full = (if isAbsolute p then p else cwd @ ''/'' @ p)
     in CHR ''/'' # joinWith ''/'' (normalizeSegments False [] (splitOn CHR ''/'' full)))"


subsection \<open>The bulk queue processor\<close>

text \<open>
  The processor of \<^verbatim>\<open>initializeQueueProcessor\<close>. The injected \<^verbatim>\<open>generateInvoiceFn\<close> returns
  a file name or throws (\<open>Inl\<close>). The queue client (\<^verbatim>\<open>job.progress\<close>) and the archiver are
  collaborators that do not fail in the model: a progress write replaces the progress the
  job holds, and the archive lists the entries handed to \<^verbatim>\<open>archive.file\<close>, in order. A job
  that never wrote its progress holds \<open>None\<close> (Bull's initial progress is the number 0).
\<close>

record BulkInvoiceJob =
  jobId :: string
  shop :: string
  orderIds :: "string list"
  userId :: string

record JobProgress =
  percent :: rat
  total :: nat
  completed :: nat
  failed :: nat
  downloadUrl :: "string option"



text \<open>The variables of the loop, and the progress the job holds.\<close>

record LoopState =
  completedCount :: nat
  failedCount :: nat
  generatedFiles :: "string list"
  progress :: "JobProgress option"




text \<open>One turn of the loop, for the order id at index \<open>i\<close>.\<close>

definition processItem ::
  "(string \<Rightarrow> string \<Rightarrow> string + string) \<Rightarrow> string \<Rightarrow> nat \<Rightarrow> nat \<Rightarrow> string \<Rightarrow> LoopState \<Rightarrow> LoopState" where
  "processItem generateInvoiceFn shopName n i ordId st =
    (case generateInvoiceFn ordId shopName of
       Inr fileName \<Rightarrow>
         st\<lparr> generatedFiles := generatedFiles st @ [fileName],
             completedCount := completedCount st + 1,
             progress := Some \<lparr> percent = mathRound ((of_nat (i + 1) / of_nat n) * 100),
                                total = n, completed = completedCount st + 1,
                                failed = failedCount st, downloadUrl = None \<rparr> \<rparr>
     | Inl err \<Rightarrow> st\<lparr> failedCount := failedCount st + 1 \<rparr>)"

fun processItems ::
  "(string \<Rightarrow> string \<Rightarrow> string + string) \<Rightarrow> string \<Rightarrow> nat \<Rightarrow> nat \<Rightarrow> string list \<Rightarrow> LoopState \<Rightarrow> LoopState" where
  "processItems generateInvoiceFn shopName n i [] st = st"
| "processItems generateInvoiceFn shopName n i (ordId # rest) st =
     processItems generateInvoiceFn shopName n (i + 1) rest
       (processItem generateInvoiceFn shopName n i ordId st)"

definition initialLoopState :: LoopState where
  "initialLoopState =
     \<lparr> completedCount = 0, failedCount = 0, generatedFiles = [], progress = None \<rparr>"

text \<open>The state of the loop once the first \<open>j\<close> order ids have been handled.\<close>

definition stateAfter ::
  "(string \<Rightarrow> string \<Rightarrow> string + string) \<Rightarrow> BulkInvoiceJob \<Rightarrow> nat \<Rightarrow> LoopState" where
  "stateAfter generateInvoiceFn job j =
     processItems generateInvoiceFn (shop job) (length (orderIds job)) 0
       (take j (orderIds job)) initialLoopState"


text \<open>The percentage the job holds, 0 before the first write.\<close>

definition percentOf :: "LoopState \<Rightarrow> rat" where
  "percentOf st = (case progress st of Some p \<Rightarrow> percent p | None \<Rightarrow> 0)"

text \<open>What the claims count: the items that fail, the files of those that succeed.\<close>

definition itemFails :: "(string \<Rightarrow> string \<Rightarrow> string + string) \<Rightarrow> string \<Rightarrow> string \<Rightarrow> bool" where
  "itemFails generateInvoiceFn shopName ordId = isl (generateInvoiceFn ordId shopName)"


text \<open>A generator that fails for the order id \<^verbatim>\<open>bad\<close>, and two jobs.\<close>

definition exampleGenerate :: "string \<Rightarrow> string \<Rightarrow> string + string" where
  "exampleGenerate ordId shopName =
     (if ordId = ''bad'' then Inl ''Order not found''
      else Inr (''invoice-'' @ ordId @ ''.pdf''))"


definition twoOrderJob :: BulkInvoiceJob where
  "twoOrderJob = \<lparr> jobId = ''j2'', shop = ''tees.myshopify.com'',
                   orderIds = [''101'', ''bad''], userId = ''u1'' \<rparr>"

subsection \<open>The file system\<close>

text \<open>
  A disk maps a resolved absolute path to a file (with its bytes) or a directory, and
  knows the working directory of the process. Symbolic links are outside the model.
  \<open>writeError\<close> is the fault of the disk: the error a write or a \<^verbatim>\<open>mkdir\<close> at a path
  meets, if any. An operation that changes the disk returns the disk it leaves, also
  when it fails.
\<close>

datatype FsNode = File string | Directory

record Disk =
  cwd :: string
  nodes :: "string \<Rightarrow> FsNode option"
  writeError :: "string \<Rightarrow> string option"

definition existsSync :: "Disk \<Rightarrow> string \<Rightarrow> bool" where
  "existsSync disk p = (nodes disk (pathResolve (cwd disk) p) \<noteq> None)"


definition writeFile :: "Disk \<Rightarrow> string \<Rightarrow> string \<Rightarrow> string + Disk" where
  "writeFile disk p bytes =
    (let target = pathResolve (cwd disk) p
     in case writeError disk target of
          Some err \<Rightarrow> Inl err
        | None \<Rightarrow> Inr (disk\<lparr> nodes := (nodes disk)(target \<mapsto> File bytes) \<rparr>))"

definition mkdirRecursive :: "Disk \<Rightarrow> string \<Rightarrow> string + Disk" where
  "mkdirRecursive disk p =
    (let target = pathResolve (cwd disk) p
     in case writeError disk target of
          Some err \<Rightarrow> Inl err
        | None \<Rightarrow> Inr (disk\<lparr> nodes := (nodes disk)(target \<mapsto> Directory) \<rparr>))"

subsection \<open>The file storage service\<close>

record Session =
  sessShop :: string

record FileStorageService =
  session :: Session
  storagePath :: string

record StoredFile =
  fileKey :: string
  storedDownloadUrl :: string
  fileSize :: nat
  storedAt :: string

text \<open>The constructor: the base path given, else the default.\<close>

definition newFileStorageService :: "Session \<Rightarrow> string option \<Rightarrow> FileStorageService" where
  "newFileStorageService sess basePath =
     \<lparr> session = sess,
       storagePath = (if truthy basePath then the basePath
                      else ''/var/www/letsprint/storage/invoices'') \<rparr>"

text \<open>The class \<^verbatim>\<open>[a-zA-Z0-9-_.]\<close> of the two sanitizers.\<close>

definition isSafeChar :: "char \<Rightarrow> bool" where
  "isSafeChar c =
    (let n = (of_char c :: nat)
     in (97 \<le> n \<and> n \<le> 122) \<or> (65 \<le> n \<and> n \<le> 90) \<or> (48 \<le> n \<and> n \<le> 57)
        \<or> c = CHR ''-'' \<or> c = CHR ''_'' \<or> c = CHR ''.'')"

definition sanitizeShopName :: "string \<Rightarrow> string" where
  "sanitizeShopName s = map (\<lambda>c. if isSafeChar c then c else CHR ''-'') s"

definition sanitizeFilename :: "string \<Rightarrow> string" where
  "sanitizeFilename s = map (\<lambda>c. if isSafeChar c then c else CHR ''-'') s"

text \<open>\<^verbatim>\<open>encodeURIComponent\<close> on 8-bit code units: the unreserved characters stand for
  themselves, every other one is escaped as the bytes of its UTF-8 encoding.\<close>

definition hexDigit :: "nat \<Rightarrow> char" where
  "hexDigit n = (if n < 10 then char_of (48 + n) else char_of (55 + n))"

definition percentByte :: "nat \<Rightarrow> string" where
  "percentByte b = [CHR ''%'', hexDigit (b div 16), hexDigit (b mod 16)]"

definition isUnreserved :: "char \<Rightarrow> bool" where
  "isUnreserved c = (isSafeChar c \<or> c \<in> set ''!~*()'' \<or> (of_char c :: nat) = 39)"

definition encodeURIComponent :: "string \<Rightarrow> string" where
  "encodeURIComponent s =
     concat (map (\<lambda>c. let n = (of_char c :: nat) in
                       if isUnreserved c then [c]
                       else if n < 128 then percentByte n
                       else percentByte (192 + n div 64) @ percentByte (128 + n mod 64)) s)"

definition ensureDirectoryExists :: "Disk \<Rightarrow> string \<Rightarrow> string + Disk" where
  "ensureDirectoryExists disk dirPath =
     (if \<not> existsSync disk dirPath then mkdirRecursive disk dirPath else Inr disk)"

definition storeFile ::
  "Clock \<Rightarrow> FileStorageService \<Rightarrow> Disk \<Rightarrow> string \<Rightarrow> string \<Rightarrow> (string + StoredFile) \<times> Disk" where
  "storeFile clock this disk buffer filename =
    (let wrap = (\<lambda>msg. ''Failed to store file: '' @ msg);
         shopDir = pathJoin [storagePath this, sanitizeShopName (sessShop (session this))]
     in case ensureDirectoryExists disk shopDir of
          Inl err \<Rightarrow> (Inl (wrap err), disk)
        | Inr disk1 \<Rightarrow>
           (let sanitizedFilename = sanitizeFilename filename;
                key = sanitizeShopName (sessShop (session this)) @ ''/'' @ nowMs clock
                        @ ''-'' @ sanitizedFilename;
                filePath = pathJoin [storagePath this, key]
            in case writeFile disk1 filePath buffer of
                 Inl err \<Rightarrow> (Inl (wrap err), disk1)
               | Inr disk2 \<Rightarrow>
                   (Inr \<lparr> fileKey = key,
                          storedDownloadUrl = ''/api/download/'' @ encodeURIComponent key,
                          fileSize = length buffer,
                          storedAt = nowIso clock \<rparr>, disk2)))"


subsection \<open>Invoice records and the download route\<close>

text \<open>
  The rows of the \<^verbatim>\<open>Invoice\<close> table, without the generated id and time stamp. Field
  names are unique across the records of this theory: the columns carry the prefix
  \<open>inv\<close>, the shop of a session is \<open>sessShop\<close>, and a stored file has \<open>storedDownloadUrl\<close>
  and \<open>fileSize\<close>.
\<close>

record Invoice =
  invShop :: string
  invOrderId :: string
  invOrderName :: string
  invoiceNumber :: string
  invFileKey :: "string option"
  invPdfUrl :: "string option"
  invTotal :: rat
  invGstAmount :: rat
  invStatus :: string

datatype ResponseBody = TextBody string | FileBody string

record Response =
  status :: nat
  headers :: "(string \<times> string) list"
  body :: ResponseBody













subsection \<open>The print route: tables, collaborators and the stages of a single order\<close>

text \<open>
  The single-order branch of the action of the print route. The database holds the
  invoice table, with its unique index on the invoice number, the print-job table and
  the settings table; database calls do not fail except where that index rejects a row.
  The order comes from the GraphQL response; its amounts are the numbers \<^verbatim>\<open>parseFloat\<close>
  reads from it. The column \<^verbatim>\<open>orderIds\<close> of a print job holds the list itself where the
  source stores its JSON text, and the id of a job is its row number.
\<close>

record Settings =
  setShop :: string
  invoicePrefix :: string
  invoiceStartNumber :: int

record PrintJob =
  pjId :: nat
  pjShop :: string
  pjOrderIds :: "string list"
  pjJobType :: string
  pjStatus :: string
  pjProgress :: nat
  pjDownloadUrl :: "string option"
  pjFileKey :: "string option"
  pjError :: "string option"
  pjCompletedAt :: "string option"

record World =
  invoiceTable :: "Invoice list"
  printJobTable :: "PrintJob list"
  settingsTable :: "Settings list"
  fileSystem :: Disk

record GraphLineItem =
  nodeTitle :: string
  nodeQuantity :: nat
  originalUnitPrice :: "rat option"

record PricedLineItem = GraphLineItem +
  price :: rat

record GraphOrder =
  orderName :: "string option"
  totalPriceAmount :: "rat option"
  lineItemNodes :: "GraphLineItem list"
  shippingProvinceCode :: "string option"

text \<open>What \<^verbatim>\<open>gstService.calculateGSTBreakdown\<close> returns, as far as the route reads it.\<close>

record RouteBreakdown =
  cgst :: "rat option"
  sgst :: "rat option"
  igst :: "rat option"

record RouteOrder =
  graphOrder :: GraphOrder
  routeLineItems :: "PricedLineItem list"
  total_price_amount :: rat
  routeBreakdown :: "RouteBreakdown option"

record PDFGenerationResult =
  pdfSuccess :: bool
  pdfBuffer :: "string option"
  pdfFilename :: "string option"
  pdfError :: "string option"

text \<open>
  The collaborators of one request: the GraphQL fetch (an order, \<open>None\<close> for
  \<^verbatim>\<open>null\<close>, or a thrown error), the GST service of the route and the PDF service, whose
  sources are not part of the repository files at hand, and the clock of the request.
\<close>

record PrintEnv =
  fetchOrder :: "string \<Rightarrow> string + GraphOrder option"
  calculateGSTBreakdown :: "PricedLineItem list \<Rightarrow> string \<Rightarrow> string + RouteBreakdown option"
  generateOrderPDF :: "RouteOrder \<Rightarrow> string \<Rightarrow> string + PDFGenerationResult"
  closeBrowserError :: "string option"
  requestClock :: Clock

record PrintRequest =
  reqSession :: Session
  reqOrderId :: string

record PrintSuccess =
  respDownloadUrl :: string
  respFileKey :: string
  respInvoiceNumber :: string
  respJobId :: nat
  respPdf :: string
  respFilename :: "string option"

datatype PrintResponse = PrintOk PrintSuccess | PrintError string nat

text \<open>Stage 1, the order fetch: \<^verbatim>\<open>fetchOrder\<close>, and the error thrown for no order.\<close>

definition stageFetch :: "PrintEnv \<Rightarrow> PrintRequest \<Rightarrow> string + GraphOrder" where
  "stageFetch env req =
    (case fetchOrder env (reqOrderId req) of
       Inl err \<Rightarrow> Inl err
     | Inr None \<Rightarrow> Inl ''Order not found''
     | Inr (Some ord) \<Rightarrow> Inr ord)"

text \<open>Stage 2, the tax computation: the priced line items and the GST breakdown.\<close>

definition stageTax :: "PrintEnv \<Rightarrow> GraphOrder \<Rightarrow> string + RouteOrder" where
  "stageTax env ord =
    (let lineItems =
           map (\<lambda>node. GraphLineItem.extend node
                          \<lparr> price = (case originalUnitPrice node of Some p \<Rightarrow> p | None \<Rightarrow> 0) \<rparr>)
               (lineItemNodes ord);
         provinceCode = (if truthy (shippingProvinceCode ord) then the (shippingProvinceCode ord)
                         else ''MH'')
     in case calculateGSTBreakdown env lineItems provinceCode of
          Inl err \<Rightarrow> Inl err
        | Inr breakdown \<Rightarrow>
            Inr \<lparr> graphOrder = ord, routeLineItems = lineItems,
                  total_price_amount = (case totalPriceAmount ord of Some t \<Rightarrow> t | None \<Rightarrow> 0),
                  routeBreakdown = breakdown \<rparr>)"

text \<open>The invoice number: the prefix and start number of the shop's settings, or
  \<^verbatim>\<open>INV\<close> and 1001, and the number of invoices the shop has.\<close>

definition findSettings :: "World \<Rightarrow> string \<Rightarrow> Settings option" where
  "findSettings w shopName = find (\<lambda>s. setShop s = shopName) (settingsTable w)"

definition countInvoices :: "World \<Rightarrow> string \<Rightarrow> nat" where
  "countInvoices w shopName = length (filter (\<lambda>row. invShop row = shopName) (invoiceTable w))"

definition makeInvoiceNumber :: "Settings option \<Rightarrow> nat \<Rightarrow> string" where
  "makeInvoiceNumber settings invoiceCount =
    (let pre = (case settings of
                  Some s \<Rightarrow> if invoicePrefix s = [] then ''INV'' else invoicePrefix s
                | None \<Rightarrow> ''INV'');
         start = (case settings of
                    Some s \<Rightarrow> if invoiceStartNumber s = 0 then 1001 else invoiceStartNumber s
                  | None \<Rightarrow> 1001)
     in pre @ ''-'' @ showInt (start + int invoiceCount))"

text \<open>Stage 3, the PDF generation: the buffer, or the error thrown.\<close>

definition stagePdf :: "PrintEnv \<Rightarrow> RouteOrder \<Rightarrow> string \<Rightarrow> string + (string \<times> string option)" where
  "stagePdf env ord number =
    (case generateOrderPDF env ord number of
       Inl err \<Rightarrow> Inl err
     | Inr pdfResult \<Rightarrow>
         if \<not> pdfSuccess pdfResult \<or> pdfBuffer pdfResult = None
         then Inl (if truthy (pdfError pdfResult) then the (pdfError pdfResult)
                   else ''Failed to generate PDF'')
         else Inr (the (pdfBuffer pdfResult), pdfFilename pdfResult))"

text \<open>Stage 4, the storage of the PDF under the name of the invoice.\<close>

definition stageStore ::
  "PrintEnv \<Rightarrow> PrintRequest \<Rightarrow> Disk \<Rightarrow> string \<Rightarrow> string \<Rightarrow> (string + StoredFile) \<times> Disk" where
  "stageStore env req d buffer number =
     storeFile (requestClock env) (newFileStorageService (reqSession req) None) d buffer
       (''invoice-'' @ number @ ''.pdf'')"

text \<open>\<^verbatim>\<open>db.invoice.create\<close>: the unique index on the invoice number rejects a row whose
  number the table holds already (the message of the client is abbreviated).\<close>

definition createInvoice :: "World \<Rightarrow> Invoice \<Rightarrow> string + World" where
  "createInvoice w row =
    (if invoiceNumber row \<in> set (map invoiceNumber (invoiceTable w))
     then Inl ''Unique constraint failed on the fields: (invoiceNumber)''
     else Inr (w\<lparr> invoiceTable := invoiceTable w @ [row] \<rparr>))"

definition createPrintJob :: "World \<Rightarrow> string \<Rightarrow> string list \<Rightarrow> string \<Rightarrow> string \<Rightarrow> nat \<times> World" where
  "createPrintJob w shopName ids jobType st =
    (let newId = length (printJobTable w)
     in (newId,
         w\<lparr> printJobTable := printJobTable w @
              [\<lparr> pjId = newId, pjShop = shopName, pjOrderIds = ids, pjJobType = jobType,
                 pjStatus = st, pjProgress = 0, pjDownloadUrl = None, pjFileKey = None,
                 pjError = None, pjCompletedAt = None \<rparr>] \<rparr>))"

definition updatePrintJob :: "World \<Rightarrow> nat \<Rightarrow> (PrintJob \<Rightarrow> PrintJob) \<Rightarrow> World" where
  "updatePrintJob w jid f =
     w\<lparr> printJobTable := map (\<lambda>j. if pjId j = jid then f j else j) (printJobTable w) \<rparr>"

definition findPrintJob :: "World \<Rightarrow> nat \<Rightarrow> PrintJob option" where
  "findPrintJob w jid = find (\<lambda>j. pjId j = jid) (printJobTable w)"

subsection \<open>The single-order branch as a machine\<close>

text \<open>
  An \<^verbatim>\<open>async\<close> function runs without interruption between two \<^verbatim>\<open>await\<close>s, and other
  requests run while it waits. A request is therefore a machine whose steps are the
  awaited calls, each atomic on the database and the disk, with the synchronous code
  that follows it. The response carries the PDF buffer itself where the source sends its
  base64 text. \<open>Pc\<close> names the call the request performs next; the two \<open>Catch\<close>
  points are the calls of the \<^verbatim>\<open>catch\<close> block, which a thrown error jumps to with its
  message.
\<close>

datatype Pc =
    CreateJob | FetchOrder | FindSettings | CountInvoices | GeneratePdf | StoreFile
  | CreateInvoice | UpdateJobCompleted | CloseBrowser
  | CatchCloseBrowser | CatchUpdateJob
  | Finished PrintResponse

record Locals =
  printJobId :: nat
  orderL :: "RouteOrder option"
  settingsFound :: "Settings option"
  invoiceNumberL :: string
  pdfBufferL :: string
  pdfFilenameL :: "string option"
  storedFileL :: "StoredFile option"
  errorMessage :: string

definition initialLocals :: Locals where
  "initialLocals =
     \<lparr> printJobId = 0, orderL = None, settingsFound = None, invoiceNumberL = [],
       pdfBufferL = [], pdfFilenameL = None, storedFileL = None, errorMessage = [] \<rparr>"

text \<open>A thrown error enters the \<^verbatim>\<open>catch\<close> block.\<close>

definition throwTo :: "World \<Rightarrow> Locals \<Rightarrow> string \<Rightarrow> World \<times> Pc \<times> Locals" where
  "throwTo w l msg = (w, CatchCloseBrowser, l\<lparr> errorMessage := msg \<rparr>)"

definition gstAmountOf :: "RouteOrder \<Rightarrow> rat" where
  "gstAmountOf ord =
    (case routeBreakdown ord of
       Some b \<Rightarrow> (case cgst b of Some x \<Rightarrow> x | None \<Rightarrow> 0)
                 + (case sgst b of Some x \<Rightarrow> x | None \<Rightarrow> 0)
                 + (case igst b of Some x \<Rightarrow> x | None \<Rightarrow> 0)
     | None \<Rightarrow> 0)"

definition invoiceRowOf :: "PrintRequest \<Rightarrow> Locals \<Rightarrow> Invoice" where
  "invoiceRowOf req l =
    (let ord = the (orderL l); stored = the (storedFileL l)
     in \<lparr> invShop = sessShop (reqSession req),
          invOrderId = reqOrderId req,
          invOrderName = (if truthy (orderName (graphOrder ord)) then the (orderName (graphOrder ord))
                          else ''#'' @ reqOrderId req),
          invoiceNumber = invoiceNumberL l,
          invFileKey = Some (fileKey stored),
          invPdfUrl = Some (storedDownloadUrl stored),
          invTotal = total_price_amount ord,
          invGstAmount = gstAmountOf ord,
          invStatus = ''generated'' \<rparr>)"

fun step :: "PrintEnv \<Rightarrow> PrintRequest \<Rightarrow> World \<times> Pc \<times> Locals \<Rightarrow> World \<times> Pc \<times> Locals" where
  "step env req (w, CreateJob, l) =
     (let (newId, w1) = createPrintJob w (sessShop (reqSession req)) [reqOrderId req]
                          ''single'' ''processing''
      in (w1, FetchOrder, l\<lparr> printJobId := newId \<rparr>))"
| "step env req (w, FetchOrder, l) =
     (case stageFetch env req of
        Inl err \<Rightarrow> throwTo w l err
      | Inr ord \<Rightarrow>
         (case stageTax env ord of
            Inl err \<Rightarrow> throwTo w l err
          | Inr withGst \<Rightarrow> (w, FindSettings, l\<lparr> orderL := Some withGst \<rparr>)))"
| "step env req (w, FindSettings, l) =
     (w, CountInvoices, l\<lparr> settingsFound := findSettings w (sessShop (reqSession req)) \<rparr>)"
| "step env req (w, CountInvoices, l) =
     (w, GeneratePdf,
      l\<lparr> invoiceNumberL :=
            makeInvoiceNumber (settingsFound l) (countInvoices w (sessShop (reqSession req))) \<rparr>)"
| "step env req (w, GeneratePdf, l) =
     (case stagePdf env (the (orderL l)) (invoiceNumberL l) of
        Inl err \<Rightarrow> throwTo w l err
      | Inr (buffer, filename) \<Rightarrow>
          (w, StoreFile, l\<lparr> pdfBufferL := buffer, pdfFilenameL := filename \<rparr>))"
| "step env req (w, StoreFile, l) =
     (case stageStore env req (fileSystem w) (pdfBufferL l) (invoiceNumberL l) of
        (Inl err, d) \<Rightarrow> throwTo (w\<lparr> fileSystem := d \<rparr>) l err
      | (Inr stored, d) \<Rightarrow>
          (w\<lparr> fileSystem := d \<rparr>, CreateInvoice, l\<lparr> storedFileL := Some stored \<rparr>))"
| "step env req (w, CreateInvoice, l) =
     (case createInvoice w (invoiceRowOf req l) of
        Inl err \<Rightarrow> throwTo w l err
      | Inr w1 \<Rightarrow> (w1, UpdateJobCompleted, l))"
| "step env req (w, UpdateJobCompleted, l) =
     (updatePrintJob w (printJobId l)
        (\<lambda>j. j\<lparr> pjStatus := ''completed'', pjProgress := 100,
                 pjDownloadUrl := Some (storedDownloadUrl (the (storedFileL l))),
                 pjFileKey := Some (fileKey (the (storedFileL l))),
                 pjCompletedAt := Some (nowIso (requestClock env)) \<rparr>),
      CloseBrowser, l)"
| "step env req (w, CloseBrowser, l) =
     (case closeBrowserError env of
        Some err \<Rightarrow> throwTo w l err
      | None \<Rightarrow>
          (w, Finished (PrintOk
                 \<lparr> respDownloadUrl = storedDownloadUrl (the (storedFileL l)),
                   respFileKey = fileKey (the (storedFileL l)),
                   respInvoiceNumber = invoiceNumberL l,
                   respJobId = printJobId l,
                   respPdf = pdfBufferL l,
                   respFilename = pdfFilenameL l \<rparr>), l))"
| "step env req (w, CatchCloseBrowser, l) = (w, CatchUpdateJob, l)"
| "step env req (w, CatchUpdateJob, l) =
     (updatePrintJob w (printJobId l)
        (\<lambda>j. j\<lparr> pjStatus := ''failed'', pjError := Some (errorMessage l) \<rparr>),
      Finished (PrintError (if errorMessage l = [] then ''Failed to process print request''
                            else errorMessage l) 500), l)"
| "step env req (w, Finished r, l) = (w, Finished r, l)"

text \<open>A request alone: its steps one after the other, from the first. Eleven steps
  reach the response on every path.\<close>

fun runSteps :: "nat \<Rightarrow> PrintEnv \<Rightarrow> PrintRequest \<Rightarrow> World \<times> Pc \<times> Locals \<Rightarrow> World \<times> Pc \<times> Locals" where
  "runSteps 0 env req s = s"
| "runSteps (Suc n) env req s = runSteps n env req (step env req s)"

definition printSingle :: "PrintEnv \<Rightarrow> PrintRequest \<Rightarrow> World \<Rightarrow> World \<times> Pc \<times> Locals" where
  "printSingle env req w = runSteps 11 env req (w, CreateJob, initialLocals)"

text \<open>Two requests at once: the schedule says whose step comes next (\<open>False\<close> the
  first request, \<open>True\<close> the second).\<close>

fun interleave ::
  "PrintEnv \<times> PrintRequest \<Rightarrow> PrintEnv \<times> PrintRequest \<Rightarrow> bool list
     \<Rightarrow> World \<times> (Pc \<times> Locals) \<times> (Pc \<times> Locals) \<Rightarrow> World \<times> (Pc \<times> Locals) \<times> (Pc \<times> Locals)" where
  "interleave a b [] s = s"
| "interleave a b (second # schedule) (w, sa, sb) =
     (if second
      then (case step (fst b) (snd b) (w, sb) of
              (w1, sb1) \<Rightarrow> interleave a b schedule (w1, sa, sb1))
      else (case step (fst a) (snd a) (w, sa) of
              (w1, sa1) \<Rightarrow> interleave a b schedule (w1, sa1, sb)))"

text \<open>A shop with three invoices, and the collaborators of two requests whose stages all
  succeed; the second request stores its file one millisecond after the first.\<close>

definition priorInvoice :: "string \<Rightarrow> string \<Rightarrow> Invoice" where
  "priorInvoice ordId number =
     \<lparr> invShop = ''alpha.myshopify.com'', invOrderId = ordId, invOrderName = ''#'' @ ordId,
       invoiceNumber = number, invFileKey = None, invPdfUrl = None,
       invTotal = 100, invGstAmount = 5, invStatus = ''generated'' \<rparr>"

definition alphaWorld :: World where
  "alphaWorld =
     \<lparr> invoiceTable = [priorInvoice ''6001'' ''INV-1001'', priorInvoice ''6002'' ''INV-1002'',
                       priorInvoice ''6003'' ''INV-1003''],
       printJobTable = [],
       settingsTable = [\<lparr> setShop = ''alpha.myshopify.com'', invoicePrefix = ''INV'',
                          invoiceStartNumber = 1001 \<rparr>],
       fileSystem = \<lparr> cwd = ''/srv/app'', nodes = Map.empty, writeError = (\<lambda>p. None) \<rparr> \<rparr>"

definition goodEnv :: "string \<Rightarrow> PrintEnv" where
  "goodEnv ms =
     \<lparr> fetchOrder = (\<lambda>ordId. Inr (Some \<lparr> orderName = Some (''#'' @ ordId),
                                           totalPriceAmount = Some 840,
                                           lineItemNodes = [],
                                           shippingProvinceCode = Some ''MH'' \<rparr>)),
       calculateGSTBreakdown =
         (\<lambda>items code. Inr (Some \<lparr> cgst = Some 20, sgst = Some 20, igst = None \<rparr>)),
       generateOrderPDF =
         (\<lambda>ord number. Inr \<lparr> pdfSuccess = True, pdfBuffer = Some (''%PDF '' @ number),
                             pdfFilename = Some (''invoice-'' @ number @ ''.pdf''),
                             pdfError = None \<rparr>),
       closeBrowserError = None,
       requestClock = \<lparr> nowMs = ms, nowIso = ''2024-10-27T03:33:20.000Z'',
                        randomSuffix = ''k3j9x0q1z'' \<rparr> \<rparr>"

definition requestFor :: "string \<Rightarrow> PrintRequest" where
  "requestFor ordId = \<lparr> reqSession = \<lparr> sessShop = ''alpha.myshopify.com'' \<rparr>, reqOrderId = ordId \<rparr>"

text \<open>What a run leaves: the response, if the request has finished, and the invoice
  numbers of the table.\<close>

definition responseOf :: "Pc \<times> Locals \<Rightarrow> PrintResponse option" where
  "responseOf s = (case fst s of Finished r \<Rightarrow> Some r | _ \<Rightarrow> None)"

definition invoiceNumbers :: "World \<Rightarrow> string list" where
  "invoiceNumbers w = map invoiceNumber (invoiceTable w)"

text \<open>Both requests count the invoices before either creates its record.\<close>

definition racingSchedule :: "bool list" where
  "racingSchedule =
     [False, True, False, True, False, True, False, True, False, True, False, True,
      False, True, False, True, False, True, False, True, False, True]"

definition oneAfterTheOther :: "bool list" where
  "oneAfterTheOther = replicate 11 False @ replicate 11 True"

definition twoRequests :: "bool list \<Rightarrow> World \<times> (Pc \<times> Locals) \<times> (Pc \<times> Locals)" where
  "twoRequests schedule =
     interleave (goodEnv ''1730000000000'', requestFor ''7001'')
                (goodEnv ''1730000000001'', requestFor ''7002'') schedule
       (alphaWorld, (CreateJob, initialLocals), (CreateJob, initialLocals))"

text \<open>The four stages the claim names, and the first of them to fail in a run from a
  world, with the message it throws.\<close>

datatype Stage = OrderFetch | TaxComputation | PdfGeneration | Storage

definition numberFor :: "World \<Rightarrow> PrintRequest \<Rightarrow> string" where
  "numberFor w req =
     makeInvoiceNumber (findSettings w (sessShop (reqSession req)))
       (countInvoices w (sessShop (reqSession req)))"

definition failingStage :: "PrintEnv \<Rightarrow> PrintRequest \<Rightarrow> World \<Rightarrow> (Stage \<times> string) option" where
  "failingStage env req w =
    (case stageFetch env req of
       Inl err \<Rightarrow> Some (OrderFetch, err)
     | Inr ord \<Rightarrow>
        (case stageTax env ord of
           Inl err \<Rightarrow> Some (TaxComputation, err)
         | Inr withGst \<Rightarrow>
            (case stagePdf env withGst (numberFor w req) of
               Inl err \<Rightarrow> Some (PdfGeneration, err)
             | Inr (buffer, filename) \<Rightarrow>
                (case fst (stageStore env req (fileSystem w) buffer (numberFor w req)) of
                   Inl err \<Rightarrow> Some (Storage, err)
                 | Inr stored \<Rightarrow> None))))"

text \<open>The error response of the route for a thrown message.\<close>

definition errorResponse :: "string \<Rightarrow> PrintResponse" where
  "errorResponse msg =
     PrintError (if msg = [] then ''Failed to process print request'' else msg) 500"

text \<open>What two requests leave: the invoice number each computed, the key under which
  each stored its file, the two responses, the states of the print jobs and the invoice
  numbers of the table.\<close>

definition raceSummary ::
  "World \<times> (Pc \<times> Locals) \<times> (Pc \<times> Locals)
     \<Rightarrow> (string \<times> string) \<times> (string option \<times> string option)
        \<times> (PrintResponse option \<times> PrintResponse option) \<times> string list \<times> string list" where
  "raceSummary s =
     (case s of (w, (pcA, la), (pcB, lb)) \<Rightarrow>
        ((invoiceNumberL la, invoiceNumberL lb),
         (map_option fileKey (storedFileL la), map_option fileKey (storedFileL lb)),
         (responseOf (pcA, la), responseOf (pcB, lb)),
         map pjStatus (printJobTable w),
         invoiceNumbers w))"

text \<open>The world once the request has created its print job, the update the \<^verbatim>\<open>catch\<close>
  block makes to the job, and collaborators whose PDF service throws.\<close>

definition jobCreated :: "World \<Rightarrow> PrintRequest \<Rightarrow> World" where
  "jobCreated w req =
     snd (createPrintJob w (sessShop (reqSession req)) [reqOrderId req] ''single'' ''processing'')"

definition failJob :: "string \<Rightarrow> PrintJob \<Rightarrow> PrintJob" where
  "failJob msg = (\<lambda>j. j\<lparr> pjStatus := ''failed'', pjError := Some msg \<rparr>)"

definition brokenPdfEnv :: PrintEnv where
  "brokenPdfEnv = (goodEnv ''1730000000000'')
      \<lparr> generateOrderPDF := (\<lambda>ord number. Inl ''Navigation timeout of 30000 ms exceeded'') \<rparr>"

section \<open>Properties of the GST calculator\<close>

subsection \<open>Validation and normalisation\<close>

lemma toUpperChar_whitespace: "isWhitespace c \<Longrightarrow> toUpperChar c = c"
  by (auto simp: isWhitespace_def toUpperChar_def)

lemma states_clean:
  "list_all (\<lambda>k. list_all (\<lambda>c. \<not> isWhitespace c) k) (map fst INDIAN_STATES)"
  by code_simp

lemma states_nonempty: "list_all (\<lambda>k. k \<noteq> []) (map fst INDIAN_STATES)"
  by code_simp

lemma isIndianState_keys: "isIndianState k \<longleftrightarrow> k \<in> set (map fst INDIAN_STATES)"
  by (simp add: isIndianState_def map_of_eq_None_iff)

lemma isIndianState_no_whitespace: "isIndianState k \<Longrightarrow> c \<in> set k \<Longrightarrow> \<not> isWhitespace c"
  using states_clean unfolding isIndianState_keys list_all_iff by blast

lemma isIndianState_nonempty: "isIndianState k \<Longrightarrow> k \<noteq> []"
  using states_nonempty unfolding isIndianState_keys list_all_iff by blast

lemma dropWhile_none: "\<forall>c\<in>set s. \<not> P c \<Longrightarrow> dropWhile P s = s"
  by (cases s) auto

lemma trim_no_whitespace: "\<forall>c\<in>set s. \<not> isWhitespace c \<Longrightarrow> trim s = s"
  by (simp add: trim_def dropWhile_none)

lemma upper_state_clean:
  assumes "isIndianState (toUpperCase s)"
  shows "trim s = s" and "s \<noteq> []"
proof -
  have "\<not> isWhitespace c" if "c \<in> set s" for c
  proof
    assume w: "isWhitespace c"
    then have "c \<in> set (toUpperCase s)"
      using that toUpperChar_whitespace[OF w] by (force simp: toUpperCase_def)
    with assms w show False using isIndianState_no_whitespace by blast
  qed
  then show "trim s = s" by (simp add: trim_no_whitespace)
  show "s \<noteq> []" using isIndianState_nonempty[OF assms] by (auto simp: toUpperCase_def)
qed

lemma if_snoc: "(if c then xs @ [m] else xs) = xs @ (if c then [m] else [])"
  by simp

lemma trim_Nil: "trim [] = []"
  by (simp add: trim_def)

lemma validate_errors_eq:
  "snd (validateGSTContext ctx) =
     (if orderTotal ctx \<le> 0 then [''Order total must be greater than 0''] else [])
   @ (if subtotal ctx \<le> 0 then [''Subtotal must be greater than 0''] else [])
   @ (if trim (customerState ctx) = [] then [''Customer state is required''] else [])
   @ (if trim (storeState ctx) = [] then [''Store state is required''] else [])
   @ (if customerState ctx \<noteq> [] \<and> \<not> isIndianState (toUpperCase (customerState ctx))
      then [''Invalid customer state code: '' @ customerState ctx] else [])
   @ (if storeState ctx \<noteq> [] \<and> \<not> isIndianState (toUpperCase (storeState ctx))
      then [''Invalid store state code: '' @ storeState ctx] else [])"
proof -
  have t: "(s = [] \<or> trim s = []) = (trim s = [])" for s
    by (auto simp: trim_Nil)
  have z: "(x = 0 \<or> x \<le> 0) = (x \<le> 0)" for x :: rat
    by auto
  show ?thesis
    unfolding validateGSTContext_def Let_def snd_conv if_snoc t z append_Nil append_assoc ..
qed

lemma validate_fst_snd: "fst (validateGSTContext ctx) \<longleftrightarrow> snd (validateGSTContext ctx) = []"
  unfolding validateGSTContext_def Let_def fst_conv snd_conv ..

lemma if_single_Nil: "((if c then [m] else []) = []) = (\<not> c)"
  by simp

lemma validate_fst_iff:
  "fst (validateGSTContext ctx) \<longleftrightarrow>
     0 < orderTotal ctx \<and> 0 < subtotal ctx
     \<and> isIndianState (toUpperCase (customerState ctx))
     \<and> isIndianState (toUpperCase (storeState ctx))"
proof -
  have c: "(trim s \<noteq> [] \<and> \<not> (s \<noteq> [] \<and> \<not> isIndianState (toUpperCase s)))
            = isIndianState (toUpperCase s)" for s
    using upper_state_clean[of s] by (auto simp: trim_Nil)
  have "fst (validateGSTContext ctx) \<longleftrightarrow>
     \<not> orderTotal ctx \<le> 0 \<and> \<not> subtotal ctx \<le> 0
     \<and> (trim (customerState ctx) \<noteq> []
          \<and> \<not> (customerState ctx \<noteq> [] \<and> \<not> isIndianState (toUpperCase (customerState ctx))))
     \<and> (trim (storeState ctx) \<noteq> []
          \<and> \<not> (storeState ctx \<noteq> [] \<and> \<not> isIndianState (toUpperCase (storeState ctx))))"
    unfolding validate_fst_snd validate_errors_eq append_is_Nil_conv if_single_Nil by blast
  then show ?thesis unfolding c by (simp add: not_le)
qed

lemma normalize_valid:
  "isIndianState (toUpperCase s) \<Longrightarrow> normalizeStateCode s = Inr (toUpperCase s)"
  using upper_state_clean[of s] by (simp add: normalizeStateCode_def Let_def)

lemma calculateGST_valid:
  assumes "fst (validateGSTContext ctx)"
  shows "\<exists>b a. calculateGST clock ctx = Success b a
     \<and> gstRate b = determineGSTRate (orderTotal ctx) DEFAULT_GST_CONFIG
     \<and> taxableAmount b = subtotal ctx
     \<and> totalGstAmount b = mathRound ((subtotal ctx * gstRate b) * 100) / 100
     \<and> (if normalizeStateCode (customerState ctx) = normalizeStateCode (storeState ctx)
        then gstType b = CGST_SGST
           \<and> cgstAmount b = Some (mathRound ((totalGstAmount b / 2) * 100) / 100)
           \<and> sgstAmount b = Some (mathRound ((totalGstAmount b / 2) * 100) / 100)
           \<and> igstAmount b = None
        else gstType b = IGST \<and> cgstAmount b = None \<and> sgstAmount b = None
           \<and> igstAmount b = Some (totalGstAmount b))"
  using assms unfolding validate_fst_iff
  by (simp add: calculateGST_def validate_fst_iff normalize_valid Let_def)


subsection \<open>Rate selection\<close>

text \<open>
  The rate does not follow the subtotal. An order of total 1200 and subtotal 900 passes
  validation, its subtotal is below the threshold, and it is taxed at the high rate.
\<close>

theorem C2_counterexample:
  "fst (validateGSTContext (gstContext 1200 900 ''MH'' ''MH''))
   \<and> subtotal (gstContext 1200 900 ''MH'' ''MH'') < threshold DEFAULT_GST_CONFIG
   \<and> map_option gstRate (breakdownOf (calculateGST exampleClock (gstContext 1200 900 ''MH'' ''MH'')))
       = Some (highRate DEFAULT_GST_CONFIG)
   \<and> highRate DEFAULT_GST_CONFIG \<noteq> lowRate DEFAULT_GST_CONFIG"
  by code_simp

text \<open>
  Claim C2, amended: for every input accepted by validation, the rate used by
  \<open>calculateGST\<close> is the low rate if and only if the order total (not the taxable
  subtotal) is below the threshold, and the high rate otherwise.
\<close>

theorem C2_rate_follows_order_total:
  assumes "fst (validateGSTContext ctx)"
  shows "\<exists>b a. calculateGST clock ctx = Success b a
     \<and> (gstRate b = lowRate DEFAULT_GST_CONFIG
          \<longleftrightarrow> orderTotal ctx < threshold DEFAULT_GST_CONFIG)
     \<and> (gstRate b = highRate DEFAULT_GST_CONFIG
          \<longleftrightarrow> \<not> orderTotal ctx < threshold DEFAULT_GST_CONFIG)"
proof -
  from calculateGST_valid[OF assms, of clock] obtain b a where
    r: "calculateGST clock ctx = Success b a"
    and g: "gstRate b = determineGSTRate (orderTotal ctx) DEFAULT_GST_CONFIG"
    by blast
  have "lowRate DEFAULT_GST_CONFIG \<noteq> highRate DEFAULT_GST_CONFIG"
    by (simp add: DEFAULT_GST_CONFIG_def)
  with r g show ?thesis by (auto simp: determineGSTRate_def)
qed

theorem C2_witness:
  "fst (validateGSTContext (gstContext 999 999 ''mh'' ''KA''))
   \<and> map_option gstRate (breakdownOf (calculateGST exampleClock (gstContext 999 999 ''mh'' ''KA'')))
       = Some (5 / 100)"
proof -
  let ?c = "gstContext 999 999 ''mh'' ''KA''"
  have v: "fst (validateGSTContext ?c)" by code_simp
  from C2_rate_follows_order_total[OF v, of exampleClock] obtain b a where
    r: "calculateGST exampleClock ?c = Success b a"
    and l: "gstRate b = lowRate DEFAULT_GST_CONFIG
              \<longleftrightarrow> orderTotal ?c < threshold DEFAULT_GST_CONFIG"
    by blast
  have "orderTotal ?c < threshold DEFAULT_GST_CONFIG"
    by (simp add: gstContext_def DEFAULT_GST_CONFIG_def)
  with l have "gstRate b = 5 / 100" by (simp add: DEFAULT_GST_CONFIG_def)
  with r v show ?thesis by (simp add: breakdownOf_def)
qed

subsection \<open>The intrastate split\<close>





subsection \<open>Validation failures\<close>

lemma joinWith_includes: "x \<in> set xs \<Longrightarrow> includesStr (joinWith sep xs) x"
proof (induction sep xs rule: joinWith.induct)
  case (1 sep)
  then show ?case by simp
next
  case (2 sep y)
  then show ?case by (simp add: includesStr_def)
next
  case (3 sep y z zs)
  show ?case
  proof (cases "x = y")
    case True
    then show ?thesis by (simp add: includesStr_def)
  next
    case False
    with 3 have "sublist x (joinWith sep (z # zs))" by (simp add: includesStr_def)
    then have "sublist x ((y @ sep) @ joinWith sep (z # zs))"
      unfolding sublist_append by blast
    then show ?thesis by (simp add: includesStr_def)
  qed
qed

lemma unknown_upper: "\<not> stateCodeKnown s \<Longrightarrow> \<not> isIndianState (toUpperCase s)"
  using upper_state_clean(1)[of s] by (auto simp: stateCodeKnown_def)

lemma present_nonempty: "stateCodePresent s \<Longrightarrow> s \<noteq> []"
  by (auto simp: stateCodePresent_def trim_Nil)

lemma valid_state_spec:
  assumes "isIndianState (toUpperCase s)"
  shows "stateCodePresent s" and "stateCodeKnown s"
  using upper_state_clean[OF assms] assms
  by (simp_all add: stateCodePresent_def stateCodeKnown_def)

lemma violated_rejected:
  assumes "violated ctx v"
  shows "\<not> fst (validateGSTContext ctx)"
proof
  assume "fst (validateGSTContext ctx)"
  then have v: "0 < orderTotal ctx" "0 < subtotal ctx"
     "isIndianState (toUpperCase (customerState ctx))"
     "isIndianState (toUpperCase (storeState ctx))"
    by (simp_all add: validate_fst_iff)
  from valid_state_spec[OF v(3)] valid_state_spec[OF v(4)] v(1,2) assms
  show False by (cases v) simp_all
qed

lemma violated_message:
  assumes "violated ctx v"
  shows "messageFor ctx v \<in> set (snd (validateGSTContext ctx))"
proof (cases v)
  case OrderTotalNotPositive
  with assms show ?thesis by (simp add: validate_errors_eq not_less)
next
  case SubtotalNotPositive
  with assms show ?thesis by (simp add: validate_errors_eq not_less)
next
  case CustomerStateMissing
  with assms show ?thesis by (simp add: validate_errors_eq stateCodePresent_def)
next
  case StoreStateMissing
  with assms show ?thesis by (simp add: validate_errors_eq stateCodePresent_def)
next
  case CustomerStateUnknown
  with assms unknown_upper[of "customerState ctx"] present_nonempty[of "customerState ctx"]
  show ?thesis by (simp add: validate_errors_eq)
next
  case StoreStateUnknown
  with assms unknown_upper[of "storeState ctx"] present_nonempty[of "storeState ctx"]
  show ?thesis by (simp add: validate_errors_eq)
qed

text \<open>
  Claim C6: for every input that violates one or more validation constraints (subtotal
  greater than 0, order total greater than 0, both state codes present and members of
  the state set), \<open>calculateGST\<close> computes no tax and returns one failure with code
  \<^verbatim>\<open>VALIDATION_ERROR\<close>, whose message is the comma-separated list of the validation errors and
  contains the message of every violated condition.
\<close>

theorem C6_validation_failure_lists_every_violation:
  assumes "\<exists>v. violated ctx v"
  shows "\<exists>msg. calculateGST clock ctx = Failure msg ''VALIDATION_ERROR''
           \<and> breakdownOf (calculateGST clock ctx) = None
           \<and> msg = joinWith '', '' (snd (validateGSTContext ctx))
           \<and> (\<forall>v. violated ctx v \<longrightarrow> includesStr msg (messageFor ctx v))"
proof -
  from assms obtain v where "violated ctx v" ..
  then have n: "\<not> fst (validateGSTContext ctx)" by (rule violated_rejected)
  then have r: "calculateGST clock ctx
      = Failure (joinWith '', '' (snd (validateGSTContext ctx))) ''VALIDATION_ERROR''"
    by (simp add: calculateGST_def Let_def)
  moreover have "breakdownOf (calculateGST clock ctx) = None"
    by (simp add: r breakdownOf_def)
  moreover have "\<forall>v. violated ctx v \<longrightarrow>
      includesStr (joinWith '', '' (snd (validateGSTContext ctx))) (messageFor ctx v)"
    using violated_message joinWith_includes by blast
  ultimately show ?thesis by blast
qed

theorem C6_witness:
  "violated badContext OrderTotalNotPositive \<and> violated badContext SubtotalNotPositive
   \<and> violated badContext CustomerStateMissing \<and> violated badContext StoreStateUnknown
   \<and> calculateGST exampleClock badContext =
       Failure ''Order total must be greater than 0, Subtotal must be greater than 0, Customer state is required, Invalid customer state code:   , Invalid store state code: XX''
               ''VALIDATION_ERROR''
   \<and> includesStr ''Order total must be greater than 0, Subtotal must be greater than 0, Customer state is required, Invalid customer state code:   , Invalid store state code: XX''
         (messageFor badContext StoreStateUnknown)"
proof -
  have v: "violated badContext OrderTotalNotPositive" "violated badContext SubtotalNotPositive"
    "violated badContext CustomerStateMissing" "violated badContext StoreStateUnknown"
    by code_simp+
  have e: "calculateGST exampleClock badContext =
       Failure ''Order total must be greater than 0, Subtotal must be greater than 0, Customer state is required, Invalid customer state code:   , Invalid store state code: XX''
               ''VALIDATION_ERROR''"
    by code_simp
  from v(1) have "\<exists>v. violated badContext v" ..
  from C6_validation_failure_lists_every_violation[OF this, of exampleClock] obtain msg where
    m: "calculateGST exampleClock badContext = Failure msg ''VALIDATION_ERROR''"
    and a: "\<forall>v. violated badContext v \<longrightarrow> includesStr msg (messageFor badContext v)"
    by blast
  from m e have "msg = ''Order total must be greater than 0, Subtotal must be greater than 0, Customer state is required, Invalid customer state code:   , Invalid store state code: XX''"
    by simp
  with a v(4) have "includesStr ''Order total must be greater than 0, Subtotal must be greater than 0, Customer state is required, Invalid customer state code:   , Invalid store state code: XX''
         (messageFor badContext StoreStateUnknown)" by blast
  with v e show ?thesis by blast
qed

subsection \<open>The HSN resolver\<close>

text \<open>
  An explicit code is not returned verbatim: the code \<^verbatim>\<open>" 6109 "\<close> comes back trimmed.
\<close>

theorem C9_counterexample:
  "getHSNCode (Some ''cotton'') (Some '' 6109 '') = ''6109'' \<and> ''6109'' \<noteq> '' 6109 ''"
  by code_simp

text \<open>
  Claim C9, amended: if an explicit classification code is supplied and is not blank,
  \<open>getHSNCode\<close> returns it trimmed; otherwise the code is inferred from the product-type
  hint, a blend or mix hint before cotton and cotton before polyester; and when no hint
  matches, the default code is returned.
\<close>

theorem C9_hsn_resolution:
  "(explicitCode hsn \<longrightarrow> getHSNCode pType hsn = trim (the hsn))
   \<and> (\<not> explicitCode hsn \<longrightarrow>
        getHSNCode pType hsn =
          (if hintMatches pType ''blend'' \<or> hintMatches pType ''mix''
             then blend TEXTILE_HSN_CODES
           else if hintMatches pType ''cotton'' then cotton TEXTILE_HSN_CODES
           else if hintMatches pType ''polyester'' then polyester TEXTILE_HSN_CODES
           else default TEXTILE_HSN_CODES))"
proof (intro conjI impI)
  assume "explicitCode hsn"
  then obtain h where h: "hsn = Some h" "trim h \<noteq> []"
    by (auto simp: explicitCode_def split: option.splits)
  then have "h \<noteq> []" by (auto simp: trim_Nil)
  with h show "getHSNCode pType hsn = trim (the hsn)"
    by (simp add: getHSNCode_def)
next
  assume a: "\<not> explicitCode hsn"
  have e: "\<not> includesStr (toLowerCase []) w" if "w \<noteq> []" for w
    using that by (simp add: includesStr_def toLowerCase_def)
  have n: "(case hsn of Some h \<Rightarrow> if h \<noteq> [] \<and> trim h \<noteq> [] then Some (trim h) else None
                     | None \<Rightarrow> None) = None"
    using a by (cases hsn) (auto simp: explicitCode_def)
  show "getHSNCode pType hsn =
          (if hintMatches pType ''blend'' \<or> hintMatches pType ''mix''
             then blend TEXTILE_HSN_CODES
           else if hintMatches pType ''cotton'' then cotton TEXTILE_HSN_CODES
           else if hintMatches pType ''polyester'' then polyester TEXTILE_HSN_CODES
           else default TEXTILE_HSN_CODES)"
  proof (cases pType)
    case None
    then show ?thesis unfolding getHSNCode_def n by (simp add: hintMatches_def)
  next
    case (Some p)
    show ?thesis
    proof (cases "p = []")
      case True
      with Some show ?thesis unfolding getHSNCode_def n
        by (simp add: hintMatches_def e)
    next
      case False
      with Some show ?thesis unfolding getHSNCode_def n
        by (simp add: hintMatches_def Let_def)
    qed
  qed
qed

theorem C9_witness:
  "explicitCode (Some '' 6109 '')
   \<and> getHSNCode (Some ''cotton'') (Some '' 6109 '') = ''6109''
   \<and> getHSNCode (Some ''Cotton-Polyester Blend'') None = ''6109.90''
   \<and> getHSNCode (Some ''100% Cotton'') (Some ''   '') = ''6109.10''
   \<and> getHSNCode (Some ''polyester shirt'') None = ''6109.90''
   \<and> getHSNCode (Some ''unknown fabric'') None = ''6109''"
proof -
  have t: "explicitCode (Some '' 6109 '')" "trim '' 6109 '' = ''6109''"
    "\<not> explicitCode None" "\<not> explicitCode (Some ''   '')"
    by code_simp+
  have b: "hintMatches (Some ''Cotton-Polyester Blend'') ''blend''" by code_simp
  have c: "\<not> hintMatches (Some ''100% Cotton'') ''blend''"
    "\<not> hintMatches (Some ''100% Cotton'') ''mix''"
    "hintMatches (Some ''100% Cotton'') ''cotton''" by code_simp+
  have q: "\<not> hintMatches (Some ''polyester shirt'') ''blend''"
    "\<not> hintMatches (Some ''polyester shirt'') ''mix''"
    "\<not> hintMatches (Some ''polyester shirt'') ''cotton''"
    "hintMatches (Some ''polyester shirt'') ''polyester''" by code_simp+
  have u: "\<not> hintMatches (Some ''unknown fabric'') ''blend''"
    "\<not> hintMatches (Some ''unknown fabric'') ''mix''"
    "\<not> hintMatches (Some ''unknown fabric'') ''cotton''"
    "\<not> hintMatches (Some ''unknown fabric'') ''polyester''" by code_simp+
  note r = C9_hsn_resolution
  from r[of "Some '' 6109 ''" "Some ''cotton''"] t
  have 1: "getHSNCode (Some ''cotton'') (Some '' 6109 '') = ''6109''" by simp
  from r[of None "Some ''Cotton-Polyester Blend''"] b t
  have 2: "getHSNCode (Some ''Cotton-Polyester Blend'') None = ''6109.90''"
    by (simp add: TEXTILE_HSN_CODES_def)
  from r[of "Some ''   ''" "Some ''100% Cotton''"] c t
  have 3: "getHSNCode (Some ''100% Cotton'') (Some ''   '') = ''6109.10''"
    by (simp add: TEXTILE_HSN_CODES_def)
  from r[of None "Some ''polyester shirt''"] q t
  have 4: "getHSNCode (Some ''polyester shirt'') None = ''6109.90''"
    by (simp add: TEXTILE_HSN_CODES_def)
  from r[of None "Some ''unknown fabric''"] u t
  have 5: "getHSNCode (Some ''unknown fabric'') None = ''6109''"
    by (simp add: TEXTILE_HSN_CODES_def)
  from t(1) 1 2 3 4 5 show ?thesis by blast
qed

subsection \<open>State codes and the interstate case\<close>

lemma normalize_result:
  assumes "normalizeStateCode s = Inr n"
  shows "n = toUpperCase (trim s)" and "isIndianState n"
  using assms by (auto simp: normalizeStateCode_def Let_def split: if_splits)

lemma toUpperChar_idem: "toUpperChar (toUpperChar c) = toUpperChar c"
proof (cases "97 \<le> (of_char c :: nat) \<and> (of_char c :: nat) \<le> 122")
  case True
  define k where "k = (of_char c :: nat) - 32"
  from True have k: "k < 97" "k < 256" unfolding k_def by linarith+
  then have "(of_char (char_of k) :: nat) = k" by simp
  with k have "toUpperChar (char_of k) = char_of k" by (simp add: toUpperChar_def)
  with True show ?thesis by (simp add: toUpperChar_def k_def)
next
  case False
  then have "toUpperChar c = c" unfolding toUpperChar_def by (simp only: if_False)
  then show ?thesis by simp
qed

lemma toUpperCase_idem: "toUpperCase (toUpperCase s) = toUpperCase s"
  by (simp add: toUpperCase_def toUpperChar_idem)

text \<open>A state code that \<^const>\<open>normalizeStateCode\<close> accepts is returned in its
  normal form: the result is a key of the state table, and normalising it again returns
  it unchanged.\<close>
theorem normalizeStateCode_idempotent:
  assumes "normalizeStateCode s = Inr n"
  shows "normalizeStateCode n = Inr n \<and> isIndianState n"
proof -
  from normalize_result[OF assms] have n: "n = toUpperCase (trim s)" "isIndianState n" .
  then have "isIndianState (toUpperCase n)" by (simp add: toUpperCase_idem)
  from normalize_valid[OF this] n show ?thesis by (simp add: toUpperCase_idem)
qed

theorem normalizeStateCode_idempotent_witness:
  "normalizeStateCode ''  ka  '' = Inr ''KA'' \<and> normalizeStateCode ''KA'' = Inr ''KA''
   \<and> isIndianState ''KA''"
proof -
  have a: "normalizeStateCode ''  ka  '' = Inr ''KA''" by code_simp
  from normalizeStateCode_idempotent[OF a] a show ?thesis by simp
qed

text \<open>A state that is not a key of the state table once trimmed and upper-cased is
  refused by \<^const>\<open>normalizeStateCode\<close>.\<close>
theorem normalizeStateCode_rejects_unknown:
  "\<not> isIndianState (toUpperCase (trim s)) \<longrightarrow> isl (normalizeStateCode s)"
  by (simp add: normalizeStateCode_def Let_def)

theorem normalizeStateCode_rejects_unknown_witness:
  "\<not> isIndianState (toUpperCase (trim ''INVALID''))
   \<and> normalizeStateCode ''INVALID'' = Inl ''Invalid state code: INVALID''"
proof -
  have a: "\<not> isIndianState (toUpperCase (trim ''INVALID''))" by code_simp
  have b: "normalizeStateCode ''INVALID'' = Inl ''Invalid state code: INVALID''" by code_simp
  from normalizeStateCode_rejects_unknown[of "''INVALID''"] a b show ?thesis by simp
qed

text \<open>For a valid context whose two states differ after normalisation, the
  calculation succeeds with a single IGST component that carries the whole tax, and
  with no CGST and no SGST component.\<close>
theorem interstate_single_component:
  assumes "fst (validateGSTContext ctx)"
    and "normalizeStateCode (customerState ctx) \<noteq> normalizeStateCode (storeState ctx)"
  shows "\<exists>b a. calculateGST clock ctx = Success b a
     \<and> gstType b = IGST \<and> igstAmount b = Some (totalGstAmount b)
     \<and> cgstAmount b = None \<and> sgstAmount b = None"
proof -
  from calculateGST_valid[OF assms(1), of clock] obtain b a where
    r: "calculateGST clock ctx = Success b a"
    and i: "if normalizeStateCode (customerState ctx) = normalizeStateCode (storeState ctx)
        then gstType b = CGST_SGST
           \<and> cgstAmount b = Some (mathRound ((totalGstAmount b / 2) * 100) / 100)
           \<and> sgstAmount b = Some (mathRound ((totalGstAmount b / 2) * 100) / 100)
           \<and> igstAmount b = None
        else gstType b = IGST \<and> cgstAmount b = None \<and> sgstAmount b = None
           \<and> igstAmount b = Some (totalGstAmount b)"
    by blast
  from i assms(2) have "gstType b = IGST \<and> cgstAmount b = None \<and> sgstAmount b = None
           \<and> igstAmount b = Some (totalGstAmount b)"
    by (simp only: if_False)
  with r show ?thesis by blast
qed

theorem interstate_single_component_witness:
  "fst (validateGSTContext (gstContext 1500 1500 ''DL'' ''KA''))
   \<and> normalizeStateCode (customerState (gstContext 1500 1500 ''DL'' ''KA''))
       \<noteq> normalizeStateCode (storeState (gstContext 1500 1500 ''DL'' ''KA''))
   \<and> map_option gstType (breakdownOf (calculateGST exampleClock (gstContext 1500 1500 ''DL'' ''KA'')))
       = Some IGST"
proof -
  let ?c = "gstContext 1500 1500 ''DL'' ''KA''"
  have v: "fst (validateGSTContext ?c)" by code_simp
  have n: "normalizeStateCode (customerState ?c) \<noteq> normalizeStateCode (storeState ?c)"
    by code_simp
  from interstate_single_component[OF v n, of exampleClock] obtain b a where
    "calculateGST exampleClock ?c = Success b a" "gstType b = IGST" by blast
  with v n show ?thesis by (simp add: breakdownOf_def)
qed

text \<open>An order of 800 inside Maharashtra: five per cent, 20 of CGST and 20 of SGST.\<close>
theorem scenario_intrastate_800:
  "breakdownOf (calculateGST exampleClock (gstContext 800 800 ''MH'' ''MH''))
     = Some \<lparr> gstType = CGST_SGST, gstRate = 5 / 100, cgstAmount = Some 20,
              sgstAmount = Some 20, igstAmount = None, totalGstAmount = 40,
              taxableAmount = 800, hsnCode = Some ''6109'' \<rparr>"
  by code_simp

text \<open>An order of 1500 from Karnataka to Delhi: twelve per cent, 180 of IGST.\<close>
theorem scenario_interstate_1500:
  "breakdownOf (calculateGST exampleClock (gstContext 1500 1500 ''DL'' ''KA''))
     = Some \<lparr> gstType = IGST, gstRate = 12 / 100, cgstAmount = None,
              sgstAmount = None, igstAmount = Some 180, totalGstAmount = 180,
              taxableAmount = 1500, hsnCode = Some ''6109'' \<rparr>"
  by code_simp

section \<open>Properties of the GST service\<close>

lemma addGSTToOrders_map:
  "addGSTToOrders pf clock this orders =
     map (\<lambda>order. case addGSTToOrder pf clock this order of
                     Inr orderWithGST \<Rightarrow> orderWithGST
                   | Inl err \<Rightarrow> ShopifyOrder.extend order \<lparr> gstBreakdown = fallbackBreakdown \<rparr>)
         orders"
  by (induction orders) simp_all

lemma truncate_extend: "ShopifyOrder.truncate (ShopifyOrder.extend order ext) = order"
  by (simp add: ShopifyOrder.truncate_def ShopifyOrder.extend_def)

lemma gstBreakdown_extend: "gstBreakdown (ShopifyOrder.extend order \<lparr> gstBreakdown = b \<rparr>) = b"
  by (simp add: ShopifyOrder.extend_def)

text \<open>
  Claim C10: for every list of orders, \<open>addGSTToOrders\<close> returns exactly one result per
  input order, each the order itself with a breakdown added, and never propagates a
  per-order failure: an order whose GST calculation throws is returned with the fallback
  breakdown of type IGST, rate 0, taxable amount 0 and tax amounts 0, so that an invoice
  built from it carries zero tax.
\<close>

theorem C10_one_result_per_order_with_fallback:
  "length (addGSTToOrders pf clock this orders) = length orders
   \<and> (\<forall>i < length orders.
         ShopifyOrder.truncate (addGSTToOrders pf clock this orders ! i) = orders ! i
       \<and> (case calculateOrderGST pf clock this (orders ! i) of
             Inl err \<Rightarrow>
               gstBreakdown (addGSTToOrders pf clock this orders ! i) = fallbackBreakdown
             \<and> gstType fallbackBreakdown = IGST \<and> gstRate fallbackBreakdown = 0
             \<and> taxableAmount fallbackBreakdown = 0 \<and> totalGstAmount fallbackBreakdown = 0
             \<and> igstAmount fallbackBreakdown = Some 0
             \<and> cgstAmount fallbackBreakdown = None \<and> sgstAmount fallbackBreakdown = None
           | Inr breakdown \<Rightarrow>
               gstBreakdown (addGSTToOrders pf clock this orders ! i) = breakdown))"
proof (intro conjI allI impI)
  show "length (addGSTToOrders pf clock this orders) = length orders"
    by (simp add: addGSTToOrders_map)
next
  fix i assume i: "i < length orders"
  show "ShopifyOrder.truncate (addGSTToOrders pf clock this orders ! i) = orders ! i"
    using i by (simp add: addGSTToOrders_map addGSTToOrder_def truncate_extend split: sum.splits)
  show "case calculateOrderGST pf clock this (orders ! i) of
             Inl err \<Rightarrow>
               gstBreakdown (addGSTToOrders pf clock this orders ! i) = fallbackBreakdown
             \<and> gstType fallbackBreakdown = IGST \<and> gstRate fallbackBreakdown = 0
             \<and> taxableAmount fallbackBreakdown = 0 \<and> totalGstAmount fallbackBreakdown = 0
             \<and> igstAmount fallbackBreakdown = Some 0
             \<and> cgstAmount fallbackBreakdown = None \<and> sgstAmount fallbackBreakdown = None
           | Inr breakdown \<Rightarrow>
               gstBreakdown (addGSTToOrders pf clock this orders ! i) = breakdown"
    using i
    by (simp add: addGSTToOrders_map addGSTToOrder_def gstBreakdown_extend
          fallbackBreakdown_def split: sum.splits)
qed

theorem C10_witness:
  "calculateOrderGST exampleParseFloat exampleClock exampleService noAddressOrder
     = Inl ''Failed to calculate GST for order 1001: Unable to determine customer state for order 1001''
   \<and> length (addGSTToOrders exampleParseFloat exampleClock exampleService
               [noAddressOrder, punjabOrder]) = 2
   \<and> gstBreakdown (addGSTToOrders exampleParseFloat exampleClock exampleService
               [noAddressOrder, punjabOrder] ! 0) = fallbackBreakdown
   \<and> totalGstAmount (gstBreakdown (addGSTToOrders exampleParseFloat exampleClock exampleService
               [noAddressOrder, punjabOrder] ! 1)) = 40"
proof -
  let ?os = "[noAddressOrder, punjabOrder]"
  let ?r = "addGSTToOrders exampleParseFloat exampleClock exampleService ?os"
  note t = C10_one_result_per_order_with_fallback
             [of exampleParseFloat exampleClock exampleService ?os]
  have f: "calculateOrderGST exampleParseFloat exampleClock exampleService noAddressOrder
     = Inl ''Failed to calculate GST for order 1001: Unable to determine customer state for order 1001''"
    by code_simp
  have l: "length ?r = 2" using t by simp
  from t have "case calculateOrderGST exampleParseFloat exampleClock exampleService (?os ! 0) of
             Inl err \<Rightarrow> gstBreakdown (?r ! 0) = fallbackBreakdown
             \<and> gstType fallbackBreakdown = IGST \<and> gstRate fallbackBreakdown = 0
             \<and> taxableAmount fallbackBreakdown = 0 \<and> totalGstAmount fallbackBreakdown = 0
             \<and> igstAmount fallbackBreakdown = Some 0
             \<and> cgstAmount fallbackBreakdown = None \<and> sgstAmount fallbackBreakdown = None
           | Inr breakdown \<Rightarrow> gstBreakdown (?r ! 0) = breakdown"
    by (metis length_Cons zero_less_Suc)
  then have z: "gstBreakdown (?r ! 0) = fallbackBreakdown" by (simp add: f)
  have o: "totalGstAmount (gstBreakdown (?r ! 1)) = 40" by code_simp
  from f l z o show ?thesis by blast
qed

section \<open>Properties of the bulk queue processor\<close>


lemma processItems_snoc:
  "processItems g s n i (ids @ [x]) st
     = processItem g s n (i + length ids) x (processItems g s n i ids st)"
  by (induction ids arbitrary: i st) simp_all

lemma stateAfter_0: "stateAfter g job 0 = initialLoopState"
  by (simp add: stateAfter_def)

lemma stateAfter_Suc:
  assumes "j < length (orderIds job)"
  shows "stateAfter g job (Suc j)
     = processItem g (shop job) (length (orderIds job)) j (orderIds job ! j) (stateAfter g job j)"
  using assms by (simp add: stateAfter_def take_Suc_conv_app_nth processItems_snoc)




subsection \<open>Progress during the run\<close>

lemma mathRound_mono: "x \<le> y \<Longrightarrow> mathRound x \<le> mathRound y"
  by (simp add: mathRound_def floor_mono)

lemma mathRound_of_int: "mathRound (of_int n) = of_int n"
proof -
  have "\<lfloor>(of_int n :: rat) + 1 / 2\<rfloor> = n"
    by (rule floor_unique) simp_all
  then show ?thesis by (simp add: mathRound_def)
qed

lemma progress_after_success:
  assumes "j < length (orderIds job)"
    and "\<not> itemFails g (shop job) (orderIds job ! j)"
  shows "map_option percent (progress (stateAfter g job (Suc j)))
           = Some (mathRound ((of_nat (j + 1) / of_nat (length (orderIds job))) * 100))"
proof -
  from assms(2) obtain f where "g (orderIds job ! j) (shop job) = Inr f"
    by (cases "g (orderIds job ! j) (shop job)") (auto simp: itemFails_def)
  then show ?thesis
    by (simp add: stateAfter_Suc[OF assms(1)] processItem_def)
qed

lemma progress_after_failure:
  assumes "j < length (orderIds job)"
    and "itemFails g (shop job) (orderIds job ! j)"
  shows "progress (stateAfter g job (Suc j)) = progress (stateAfter g job j)"
proof -
  from assms(2) obtain e where "g (orderIds job ! j) (shop job) = Inl e"
    by (cases "g (orderIds job ! j) (shop job)") (auto simp: itemFails_def)
  then show ?thesis
    by (simp add: stateAfter_Suc[OF assms(1)] processItem_def)
qed

lemma percentOf_bound:
  assumes "j \<le> length (orderIds job)"
  shows "percentOf (stateAfter g job j)
           \<le> mathRound ((of_nat j / of_nat (length (orderIds job))) * 100)"
  using assms
proof (induction j)
  case 0
  show ?case by (simp add: stateAfter_0 percentOf_def initialLoopState_def mathRound_def)
next
  case (Suc j)
  then have j: "j < length (orderIds job)" and
    ih: "percentOf (stateAfter g job j)
           \<le> mathRound ((of_nat j / of_nat (length (orderIds job))) * 100)"
    by simp_all
  have m: "mathRound ((of_nat j / of_nat (length (orderIds job))) * 100)
         \<le> mathRound ((of_nat (Suc j) / of_nat (length (orderIds job))) * (100::rat))"
    by (rule mathRound_mono) (simp add: divide_right_mono)
  show ?case
  proof (cases "itemFails g (shop job) (orderIds job ! j)")
    case True
    from progress_after_failure[OF j True] ih m show ?thesis
      by (simp add: percentOf_def)
  next
    case False
    from progress_after_success[OF j False] show ?thesis
      by (auto simp: percentOf_def split: option.splits)
  qed
qed

lemma percentOf_step:
  assumes "j < length (orderIds job)"
  shows "percentOf (stateAfter g job j) \<le> percentOf (stateAfter g job (Suc j))"
proof (cases "itemFails g (shop job) (orderIds job ! j)")
  case True
  from progress_after_failure[OF assms True] show ?thesis by (simp add: percentOf_def)
next
  case False
  have "percentOf (stateAfter g job j)
          \<le> mathRound ((of_nat j / of_nat (length (orderIds job))) * 100)"
    using assms by (intro percentOf_bound) simp
  also have "\<dots> \<le> mathRound ((of_nat (j + 1) / of_nat (length (orderIds job))) * (100::rat))"
    by (rule mathRound_mono) (simp add: divide_right_mono)
  also have "\<dots> = percentOf (stateAfter g job (Suc j))"
    using progress_after_success[OF assms False]
    by (auto simp: percentOf_def split: option.splits)
  finally show ?thesis .
qed

lemma percentOf_monotone:
  assumes "i \<le> j" and "j \<le> length (orderIds job)"
  shows "percentOf (stateAfter g job i) \<le> percentOf (stateAfter g job j)"
  using assms
proof (induction j)
  case 0
  then show ?case by simp
next
  case (Suc j)
  show ?case
  proof (cases "i = Suc j")
    case True
    then show ?thesis by simp
  next
    case False
    with Suc have "percentOf (stateAfter g job i) \<le> percentOf (stateAfter g job j)" by simp
    also have "\<dots> \<le> percentOf (stateAfter g job (Suc j))"
      using Suc.prems by (intro percentOf_step) simp
    finally show ?thesis .
  qed
qed

lemma percentOf_range:
  assumes "j \<le> length (orderIds job)"
  shows "0 \<le> percentOf (stateAfter g job j) \<and> percentOf (stateAfter g job j) \<le> 100"
proof
  have "percentOf (stateAfter g job 0) \<le> percentOf (stateAfter g job j)"
    using assms by (intro percentOf_monotone) simp_all
  then show "0 \<le> percentOf (stateAfter g job j)"
    by (simp add: stateAfter_0 percentOf_def initialLoopState_def)
  have "percentOf (stateAfter g job j)
          \<le> mathRound ((of_nat j / of_nat (length (orderIds job))) * 100)"
    using assms by (rule percentOf_bound)
  also have "\<dots> \<le> mathRound (1 * (100::rat))"
  proof (rule mathRound_mono)
    have "(of_nat j / of_nat (length (orderIds job)) :: rat) \<le> 1"
      using assms by (cases "length (orderIds job) = 0") (simp_all add: divide_le_eq_1)
    then show "of_nat j / of_nat (length (orderIds job)) * (100::rat) \<le> 1 * 100"
      by (intro mult_right_mono) simp_all
  qed
  also have "\<dots> = 100" using mathRound_of_int[of 100] by simp
  finally show "percentOf (stateAfter g job j) \<le> 100" .
qed

text \<open>
  Claim C8 fails on the code after a failed item. In a job of two order ids whose second
  item fails, the job still holds 50 percent and a failed count of 0 once both items are
  handled, where the claim has round(100 * 2 / 2) = 100: the progress write stands in the
  \<^verbatim>\<open>try\<close> block after the generation, and the \<^verbatim>\<open>catch\<close> block only counts the failure.
\<close>

theorem C8_progress_stale_after_failed_item:
  "length (orderIds twoOrderJob) = 2
   \<and> itemFails exampleGenerate (shop twoOrderJob) (orderIds twoOrderJob ! 1)
   \<and> map_option percent (progress (stateAfter exampleGenerate twoOrderJob 2)) = Some 50
   \<and> failedCount (stateAfter exampleGenerate twoOrderJob 2) = 1
   \<and> map_option failed (progress (stateAfter exampleGenerate twoOrderJob 2)) = Some 0
   \<and> mathRound (100 * 2 / 2) = 100"
  by code_simp

section \<open>Properties of the download route\<close>






section \<open>Properties of the print route\<close>

subsection \<open>The run of one request\<close>

lemma runSteps_Finished: "runSteps n env req (w, Finished r, l) = (w, Finished r, l)"
  by (induction n) simp_all

lemma runSteps_add: "runSteps (m + n) env req s = runSteps n env req (runSteps m env req s)"
  by (induction m arbitrary: s) simp_all

lemma catch_path:
  "runSteps (Suc (Suc n)) env req (throwTo w l msg)
     = (updatePrintJob w (printJobId l) (failJob msg),
        Finished (errorResponse msg), l\<lparr> errorMessage := msg \<rparr>)"
  by (simp add: throwTo_def runSteps_Finished errorResponse_def failJob_def)

lemma jobCreated_frame:
  "invoiceTable (jobCreated w req) = invoiceTable w"
  "settingsTable (jobCreated w req) = settingsTable w"
  "fileSystem (jobCreated w req) = fileSystem w"
  "length (printJobTable (jobCreated w req)) = Suc (length (printJobTable w))"
  "pjId (printJobTable (jobCreated w req) ! length (printJobTable w)) = length (printJobTable w)"
  "pjStatus (printJobTable (jobCreated w req) ! length (printJobTable w)) = ''processing''"
  by (simp_all add: jobCreated_def createPrintJob_def Let_def)

lemma jobCreated_number: "numberFor (jobCreated w req) req = numberFor w req"
  by (simp add: numberFor_def findSettings_def countInvoices_def jobCreated_frame)

lemma first_step:
  "step env req (w, CreateJob, initialLocals)
     = (jobCreated w req, FetchOrder, initialLocals\<lparr> printJobId := length (printJobTable w) \<rparr>)"
  by (simp add: jobCreated_def createPrintJob_def Let_def)

lemma updatePrintJob_frame:
  "invoiceTable (updatePrintJob w jid f) = invoiceTable w"
  "fileSystem (updatePrintJob w jid f) = fileSystem w"
  "length (printJobTable (updatePrintJob w jid f)) = length (printJobTable w)"
  by (simp_all add: updatePrintJob_def)

lemma updatePrintJob_nth:
  "i < length (printJobTable w) \<Longrightarrow> pjId (printJobTable w ! i) = jid \<Longrightarrow>
     printJobTable (updatePrintJob w jid f) ! i = f (printJobTable w ! i)"
  by (simp add: updatePrintJob_def)

lemma runSteps_1: "runSteps (Suc 0) env req s = step env req s"
  by simp

lemma printSingle_unfold:
  "printSingle env req w
     = runSteps 10 env req
         (jobCreated w req, FetchOrder, initialLocals\<lparr> printJobId := length (printJobTable w) \<rparr>)"
proof -
  have "printSingle env req w
          = runSteps 10 env req (runSteps (Suc 0) env req (w, CreateJob, initialLocals))"
    unfolding printSingle_def using runSteps_add[of "Suc 0" 10] by simp
  then show ?thesis unfolding runSteps_1 first_step .
qed

text \<open>The run of a request whose order fetch or tax computation throws.\<close>

lemma run_fetch_fails:
  assumes "stageFetch env req = Inl e"
  shows "printSingle env req w
     = (updatePrintJob (jobCreated w req) (length (printJobTable w)) (failJob e),
        Finished (errorResponse e),
        initialLocals\<lparr> printJobId := length (printJobTable w), errorMessage := e \<rparr>)"
proof -
  let ?s = "(jobCreated w req, FetchOrder,
             initialLocals\<lparr> printJobId := length (printJobTable w) \<rparr>)"
  have "runSteps 10 env req ?s = runSteps (Suc (Suc 7)) env req (runSteps (Suc 0) env req ?s)"
    using runSteps_add[of "Suc 0" "Suc (Suc 7)"] by simp
  also have "runSteps (Suc 0) env req ?s
      = throwTo (jobCreated w req) (initialLocals\<lparr> printJobId := length (printJobTable w) \<rparr>) e"
    by (simp add: assms)
  finally show ?thesis unfolding printSingle_unfold catch_path by simp
qed

lemma run_tax_fails:
  assumes "stageFetch env req = Inr ord" and "stageTax env ord = Inl e"
  shows "printSingle env req w
     = (updatePrintJob (jobCreated w req) (length (printJobTable w)) (failJob e),
        Finished (errorResponse e),
        initialLocals\<lparr> printJobId := length (printJobTable w), errorMessage := e \<rparr>)"
proof -
  let ?s = "(jobCreated w req, FetchOrder,
             initialLocals\<lparr> printJobId := length (printJobTable w) \<rparr>)"
  have "runSteps 10 env req ?s = runSteps (Suc (Suc 7)) env req (runSteps (Suc 0) env req ?s)"
    using runSteps_add[of "Suc 0" "Suc (Suc 7)"] by simp
  also have "runSteps (Suc 0) env req ?s
      = throwTo (jobCreated w req) (initialLocals\<lparr> printJobId := length (printJobTable w) \<rparr>) e"
    by (simp add: assms)
  finally show ?thesis unfolding printSingle_unfold catch_path by simp
qed

text \<open>The state in which the PDF is generated.\<close>

lemma run_to_pdf:
  assumes "stageFetch env req = Inr ord" and "stageTax env ord = Inr withGst"
  shows "printSingle env req w
     = runSteps 7 env req
         (jobCreated w req, GeneratePdf,
          initialLocals\<lparr> printJobId := length (printJobTable w),
                          orderL := Some withGst,
                          settingsFound := findSettings w (sessShop (reqSession req)),
                          invoiceNumberL := numberFor w req \<rparr>)"
proof -
  have "runSteps 10 env req
         (jobCreated w req, FetchOrder, initialLocals\<lparr> printJobId := length (printJobTable w) \<rparr>)
     = runSteps 7 env req (runSteps 3 env req
         (jobCreated w req, FetchOrder, initialLocals\<lparr> printJobId := length (printJobTable w) \<rparr>))"
    using runSteps_add[of 3 7] by simp
  moreover have "runSteps 3 env req
         (jobCreated w req, FetchOrder, initialLocals\<lparr> printJobId := length (printJobTable w) \<rparr>)
     = (jobCreated w req, GeneratePdf,
          initialLocals\<lparr> printJobId := length (printJobTable w),
                          orderL := Some withGst,
                          settingsFound := findSettings w (sessShop (reqSession req)),
                          invoiceNumberL := numberFor w req \<rparr>)"
    using jobCreated_number[of w req]
    by (simp add: eval_nat_numeral assms numberFor_def findSettings_def countInvoices_def
          jobCreated_frame)
  ultimately show ?thesis by (simp add: printSingle_unfold)
qed


lemma run_pdf_fails:
  assumes "stageFetch env req = Inr ord" and "stageTax env ord = Inr withGst"
    and "stagePdf env withGst (numberFor w req) = Inl e"
  shows "\<exists>l. printSingle env req w
     = (updatePrintJob (jobCreated w req) (length (printJobTable w)) (failJob e),
        Finished (errorResponse e), l)"
proof -
  let ?l = "initialLocals\<lparr> printJobId := length (printJobTable w),
                          orderL := Some withGst,
                          settingsFound := findSettings w (sessShop (reqSession req)),
                          invoiceNumberL := numberFor w req \<rparr>"
  let ?s = "(jobCreated w req, GeneratePdf, ?l)"
  have "runSteps 7 env req ?s = runSteps (Suc (Suc 4)) env req (runSteps (Suc 0) env req ?s)"
    using runSteps_add[of "Suc 0" "Suc (Suc 4)"] by simp
  also have "runSteps (Suc 0) env req ?s = throwTo (jobCreated w req) ?l e"
    by (simp add: assms)
  finally show ?thesis unfolding run_to_pdf[OF assms(1,2)] catch_path by simp
qed

text \<open>The state in which the file is stored.\<close>

lemma run_to_store:
  assumes "stageFetch env req = Inr ord" and "stageTax env ord = Inr withGst"
    and "stagePdf env withGst (numberFor w req) = Inr (buffer, filename)"
  shows "printSingle env req w
     = runSteps 6 env req
         (jobCreated w req, StoreFile,
          initialLocals\<lparr> printJobId := length (printJobTable w),
                          orderL := Some withGst,
                          settingsFound := findSettings w (sessShop (reqSession req)),
                          invoiceNumberL := numberFor w req,
                          pdfBufferL := buffer, pdfFilenameL := filename \<rparr>)"
proof -
  let ?l = "initialLocals\<lparr> printJobId := length (printJobTable w),
                          orderL := Some withGst,
                          settingsFound := findSettings w (sessShop (reqSession req)),
                          invoiceNumberL := numberFor w req \<rparr>"
  let ?s = "(jobCreated w req, GeneratePdf, ?l)"
  have "runSteps 7 env req ?s = runSteps 6 env req (runSteps (Suc 0) env req ?s)"
    using runSteps_add[of "Suc 0" 6] by simp
  also have "runSteps (Suc 0) env req ?s
     = (jobCreated w req, StoreFile, ?l\<lparr> pdfBufferL := buffer, pdfFilenameL := filename \<rparr>)"
    by (simp add: assms)
  finally show ?thesis unfolding run_to_pdf[OF assms(1,2)] by simp
qed

lemma run_store_fails:
  assumes "stageFetch env req = Inr ord" and "stageTax env ord = Inr withGst"
    and "stagePdf env withGst (numberFor w req) = Inr (buffer, filename)"
    and "stageStore env req (fileSystem w) buffer (numberFor w req) = (Inl e, d)"
  shows "\<exists>l. printSingle env req w
     = (updatePrintJob ((jobCreated w req)\<lparr> fileSystem := d \<rparr>) (length (printJobTable w))
          (failJob e),
        Finished (errorResponse e), l)"
proof -
  let ?l = "initialLocals\<lparr> printJobId := length (printJobTable w),
                          orderL := Some withGst,
                          settingsFound := findSettings w (sessShop (reqSession req)),
                          invoiceNumberL := numberFor w req,
                          pdfBufferL := buffer, pdfFilenameL := filename \<rparr>"
  let ?s = "(jobCreated w req, StoreFile, ?l)"
  have "runSteps 6 env req ?s = runSteps (Suc (Suc 3)) env req (runSteps (Suc 0) env req ?s)"
    using runSteps_add[of "Suc 0" "Suc (Suc 3)"] by simp
  also have "runSteps (Suc 0) env req ?s
      = throwTo ((jobCreated w req)\<lparr> fileSystem := d \<rparr>) ?l e"
    by (simp add: assms jobCreated_frame)
  finally show ?thesis unfolding run_to_store[OF assms(1,2,3)] catch_path by simp
qed

text \<open>The state in which the invoice record is created.\<close>

lemma run_to_create:
  assumes "stageFetch env req = Inr ord" and "stageTax env ord = Inr withGst"
    and "stagePdf env withGst (numberFor w req) = Inr (buffer, filename)"
    and "stageStore env req (fileSystem w) buffer (numberFor w req) = (Inr stored, d)"
  shows "printSingle env req w
     = runSteps 5 env req
         ((jobCreated w req)\<lparr> fileSystem := d \<rparr>, CreateInvoice,
          initialLocals\<lparr> printJobId := length (printJobTable w),
                          orderL := Some withGst,
                          settingsFound := findSettings w (sessShop (reqSession req)),
                          invoiceNumberL := numberFor w req,
                          pdfBufferL := buffer, pdfFilenameL := filename,
                          storedFileL := Some stored \<rparr>)"
proof -
  let ?l = "initialLocals\<lparr> printJobId := length (printJobTable w),
                          orderL := Some withGst,
                          settingsFound := findSettings w (sessShop (reqSession req)),
                          invoiceNumberL := numberFor w req,
                          pdfBufferL := buffer, pdfFilenameL := filename \<rparr>"
  let ?s = "(jobCreated w req, StoreFile, ?l)"
  have "runSteps 6 env req ?s = runSteps 5 env req (runSteps (Suc 0) env req ?s)"
    using runSteps_add[of "Suc 0" 5] by simp
  also have "runSteps (Suc 0) env req ?s
      = ((jobCreated w req)\<lparr> fileSystem := d \<rparr>, CreateInvoice, ?l\<lparr> storedFileL := Some stored \<rparr>)"
    by (simp add: assms jobCreated_frame)
  finally show ?thesis unfolding run_to_store[OF assms(1,2,3)] by simp
qed

lemma failed_job_row:
  assumes "pjId (printJobTable v ! n) = n" and "n < length (printJobTable v)"
  shows "pjStatus (printJobTable (updatePrintJob v n (failJob e)) ! n) = ''failed''"
    and "pjError (printJobTable (updatePrintJob v n (failJob e)) ! n) = Some e"
  using assms by (simp_all add: updatePrintJob_nth failJob_def)

lemma run_from_create:
  fixes w :: World and req :: PrintRequest and d :: Disk
  defines "n \<equiv> length (printJobTable w)"
  assumes l: "printJobId l = n" "invoiceNumberL l = num" "storedFileL l = Some stored"
  shows "\<exists>v pc l'. runSteps 5 env req ((jobCreated w req)\<lparr> fileSystem := d \<rparr>, CreateInvoice, l)
            = (v, pc, l')
     \<and> fileSystem v = d \<and> length (printJobTable v) = Suc n
     \<and> (\<exists>r. pc = Finished r)
     \<and> (invoiceTable v = invoiceTable w
          \<and> (\<exists>e. pc = Finished (errorResponse e)
                 \<and> pjStatus (printJobTable v ! n) = ''failed''
                 \<and> pjError (printJobTable v ! n) = Some e)
        \<or> invoiceTable v = invoiceTable w @ [invoiceRowOf req l]
          \<and> num \<notin> set (map invoiceNumber (invoiceTable w)))"
proof -
  let ?w0 = "(jobCreated w req)\<lparr> fileSystem := d \<rparr>"
  let ?s = "(?w0, CreateInvoice, l)"
  have fr: "invoiceTable ?w0 = invoiceTable w" "fileSystem ?w0 = d"
    "length (printJobTable ?w0) = Suc n" "pjId (printJobTable ?w0 ! n) = n"
    by (simp_all add: jobCreated_frame n_def)
  have rn: "invoiceNumber (invoiceRowOf req l) = num"
    by (simp add: invoiceRowOf_def Let_def l)
  show ?thesis
  proof (cases "num \<in> set (map invoiceNumber (invoiceTable w))")
    case True
    let ?e = "''Unique constraint failed on the fields: (invoiceNumber)''"
    have "runSteps 5 env req ?s = runSteps (Suc (Suc 2)) env req (runSteps (Suc 0) env req ?s)"
      using runSteps_add[of "Suc 0" "Suc (Suc 2)"] by simp
    also have "runSteps (Suc 0) env req ?s = throwTo ?w0 l ?e"
      using True by (simp add: createInvoice_def rn fr)
    finally have r: "runSteps 5 env req ?s
        = (updatePrintJob ?w0 n (failJob ?e), Finished (errorResponse ?e),
           l\<lparr> errorMessage := ?e \<rparr>)"
      unfolding catch_path by (simp add: l)
    show ?thesis
      unfolding r using failed_job_row[of ?w0 n ?e] fr
      by (simp add: updatePrintJob_frame)
  next
    case False
    let ?w1 = "?w0\<lparr> invoiceTable := invoiceTable w @ [invoiceRowOf req l] \<rparr>"
    let ?w2 = "updatePrintJob ?w1 n
        (\<lambda>j. j\<lparr> pjStatus := ''completed'', pjProgress := 100,
                 pjDownloadUrl := Some (storedDownloadUrl stored),
                 pjFileKey := Some (fileKey stored),
                 pjCompletedAt := Some (nowIso (requestClock env)) \<rparr>)"
    have two: "runSteps (Suc (Suc 0)) env req ?s = (?w2, CloseBrowser, l)"
      using False by (simp add: createInvoice_def rn fr l)
    have fr2: "invoiceTable ?w2 = invoiceTable w @ [invoiceRowOf req l]" "fileSystem ?w2 = d"
      "length (printJobTable ?w2) = Suc n"
      by (simp_all add: updatePrintJob_frame fr jobCreated_frame n_def)
    have split: "runSteps 5 env req ?s
        = runSteps 3 env req (runSteps (Suc (Suc 0)) env req ?s)"
      using runSteps_add[of "Suc (Suc 0)" 3] by simp
    show ?thesis
    proof (cases "closeBrowserError env")
      case None
      have "runSteps 3 env req (?w2, CloseBrowser, l)
          = (?w2, Finished (PrintOk
                 \<lparr> respDownloadUrl = storedDownloadUrl stored, respFileKey = fileKey stored,
                   respInvoiceNumber = num, respJobId = n, respPdf = pdfBufferL l,
                   respFilename = pdfFilenameL l \<rparr>), l)"
        by (simp add: eval_nat_numeral None l)
      then show ?thesis
        unfolding split two using fr2 False by simp
    next
      case (Some e)
      have "runSteps 3 env req (?w2, CloseBrowser, l)
          = runSteps (Suc (Suc 0)) env req (runSteps (Suc 0) env req (?w2, CloseBrowser, l))"
        by (simp add: eval_nat_numeral)
      also have "runSteps (Suc 0) env req (?w2, CloseBrowser, l) = throwTo ?w2 l e"
        by (simp add: Some)
      finally have "runSteps 3 env req (?w2, CloseBrowser, l)
          = (updatePrintJob ?w2 n (failJob e), Finished (errorResponse e),
             l\<lparr> errorMessage := e \<rparr>)"
        unfolding catch_path by (simp add: l)
      then show ?thesis
        unfolding split two using fr2 False by (simp add: updatePrintJob_frame)
    qed
  qed
qed

text \<open>
  Claim C7: for every single-order generation, if the order fetch, the tax computation,
  the PDF generation or the storage fails, the request answers with the error (status
  500), the print job of the request is set to failed with the message, and the invoice
  table is left as it was; and whenever the run adds an invoice record, no stage failed:
  the PDF was rendered and stored, and the record carries the key of the stored file.
  Every run ends with a response.
\<close>

theorem C7_failed_stage_leaves_no_invoice_record:
  "(case printSingle env req w of
      (w', pc, l) \<Rightarrow>
        (\<exists>r. pc = Finished r)
      \<and> (\<forall>stage msg. failingStage env req w = Some (stage, msg) \<longrightarrow>
            pc = Finished (errorResponse msg)
          \<and> length (printJobTable w') = Suc (length (printJobTable w))
          \<and> pjStatus (printJobTable w' ! length (printJobTable w)) = ''failed''
          \<and> pjError (printJobTable w' ! length (printJobTable w)) = Some msg
          \<and> invoiceTable w' = invoiceTable w)
      \<and> (invoiceTable w' \<noteq> invoiceTable w \<longrightarrow>
            failingStage env req w = None
          \<and> (\<exists>ord withGst buffer filename stored row.
                stageFetch env req = Inr ord \<and> stageTax env ord = Inr withGst
              \<and> stagePdf env withGst (numberFor w req) = Inr (buffer, filename)
              \<and> stageStore env req (fileSystem w) buffer (numberFor w req)
                   = (Inr stored, fileSystem w')
              \<and> invoiceTable w' = invoiceTable w @ [row]
              \<and> invoiceNumber row = numberFor w req
              \<and> invFileKey row = Some (fileKey stored))))"
proof -
  let ?n = "length (printJobTable w)"
  have jf: "pjId (printJobTable (jobCreated w req) ! ?n) = ?n"
    "?n < length (printJobTable (jobCreated w req))"
    by (simp_all add: jobCreated_frame)
  have early: "?thesis"
    if run: "printSingle env req w
               = (updatePrintJob (jobCreated w req) ?n (failJob e), Finished (errorResponse e), l)"
      and fs: "failingStage env req w = Some (st, e)" for e l st
    unfolding run using fs failed_job_row[OF jf, of e]
    by (simp add: updatePrintJob_frame jobCreated_frame)
  show ?thesis
  proof (cases "stageFetch env req")
    case (Inl e)
    have "failingStage env req w = Some (OrderFetch, e)"
      by (simp add: failingStage_def Inl)
    with run_fetch_fails[OF Inl, of w] show ?thesis by (rule early)
  next
    case fetched: (Inr ord)
    show ?thesis
    proof (cases "stageTax env ord")
      case (Inl e)
      have "failingStage env req w = Some (TaxComputation, e)"
        by (simp add: failingStage_def fetched Inl)
      with run_tax_fails[OF fetched Inl, of w] show ?thesis by (rule early)
    next
      case taxed: (Inr withGst)
      show ?thesis
      proof (cases "stagePdf env withGst (numberFor w req)")
        case (Inl e)
        have f: "failingStage env req w = Some (PdfGeneration, e)"
          by (simp add: failingStage_def fetched taxed Inl)
        from run_pdf_fails[OF fetched taxed Inl] obtain l where
          "printSingle env req w
             = (updatePrintJob (jobCreated w req) ?n (failJob e), Finished (errorResponse e), l)"
          by blast
        from this f show ?thesis by (rule early)
      next
        case (Inr rendered)
        obtain buffer filename where rendered: "rendered = (buffer, filename)"
          by (cases rendered)
        note pdf = Inr[unfolded rendered]
        obtain res d where st: "stageStore env req (fileSystem w) buffer (numberFor w req) = (res, d)"
          by (cases "stageStore env req (fileSystem w) buffer (numberFor w req)")
        show ?thesis
        proof (cases res)
          case (Inl e)
          have f: "failingStage env req w = Some (Storage, e)"
            by (simp add: failingStage_def fetched taxed pdf st Inl)
          let ?v = "(jobCreated w req)\<lparr> fileSystem := d \<rparr>"
          from run_store_fails[OF fetched taxed pdf st[unfolded Inl]] obtain l where
            run: "printSingle env req w
               = (updatePrintJob ?v ?n (failJob e), Finished (errorResponse e), l)"
            by blast
          have "pjId (printJobTable ?v ! ?n) = ?n" "?n < length (printJobTable ?v)"
            by (simp_all add: jobCreated_frame)
          from failed_job_row[OF this, of e] show ?thesis
            unfolding run using f
            by (simp add: updatePrintJob_frame jobCreated_frame)
        next
          case stored: (Inr sf)
          have f: "failingStage env req w = None"
            by (simp add: failingStage_def fetched taxed pdf st stored)
          let ?l = "initialLocals\<lparr> printJobId := ?n,
                          orderL := Some withGst,
                          settingsFound := findSettings w (sessShop (reqSession req)),
                          invoiceNumberL := numberFor w req,
                          pdfBufferL := buffer, pdfFilenameL := filename,
                          storedFileL := Some sf \<rparr>"
          have "printJobId ?l = ?n" "invoiceNumberL ?l = numberFor w req"
            "storedFileL ?l = Some sf" by simp_all
          from run_from_create[OF this, of env req d] obtain v pc l' where
            r: "runSteps 5 env req ((jobCreated w req)\<lparr> fileSystem := d \<rparr>, CreateInvoice, ?l)
                  = (v, pc, l')"
            and v: "fileSystem v = d" "\<exists>r. pc = Finished r"
              "invoiceTable v = invoiceTable w
               \<or> invoiceTable v = invoiceTable w @ [invoiceRowOf req ?l]"
            by blast
          have run: "printSingle env req w = (v, pc, l')"
            unfolding run_to_create[OF fetched taxed pdf st[unfolded stored]] r ..
          have row: "invoiceNumber (invoiceRowOf req ?l) = numberFor w req"
            "invFileKey (invoiceRowOf req ?l) = Some (fileKey sf)"
            by (simp_all add: invoiceRowOf_def Let_def)
          show ?thesis
            unfolding run using f v fetched taxed pdf st stored row
            by auto
        qed
      qed
    qed
  qed
qed

theorem C7_witness:
  "failingStage brokenPdfEnv (requestFor ''7001'') alphaWorld
     = Some (PdfGeneration, ''Navigation timeout of 30000 ms exceeded'')
   \<and> fst (snd (printSingle brokenPdfEnv (requestFor ''7001'') alphaWorld))
     = Finished (PrintError ''Navigation timeout of 30000 ms exceeded'' 500)
   \<and> map pjStatus (printJobTable (fst (printSingle brokenPdfEnv (requestFor ''7001'') alphaWorld)))
     = [''failed'']
   \<and> invoiceTable (fst (printSingle brokenPdfEnv (requestFor ''7001'') alphaWorld))
     = invoiceTable alphaWorld
   \<and> invoiceNumbers (fst (printSingle (goodEnv ''1730000000000'') (requestFor ''7001'') alphaWorld))
     = [''INV-1001'', ''INV-1002'', ''INV-1003'', ''INV-1004'']"
proof -
  obtain w' pc l where r: "printSingle brokenPdfEnv (requestFor ''7001'') alphaWorld = (w', pc, l)"
    by (cases "printSingle brokenPdfEnv (requestFor ''7001'') alphaWorld")
  have f: "failingStage brokenPdfEnv (requestFor ''7001'') alphaWorld
     = Some (PdfGeneration, ''Navigation timeout of 30000 ms exceeded'')"
    by code_simp
  from C7_failed_stage_leaves_no_invoice_record[of brokenPdfEnv "requestFor ''7001''" alphaWorld]
  have "pc = Finished (errorResponse ''Navigation timeout of 30000 ms exceeded'')"
    "invoiceTable w' = invoiceTable alphaWorld"
    unfolding r using f by simp_all
  then have a: "fst (snd (printSingle brokenPdfEnv (requestFor ''7001'') alphaWorld))
     = Finished (PrintError ''Navigation timeout of 30000 ms exceeded'' 500)"
    "invoiceTable (fst (printSingle brokenPdfEnv (requestFor ''7001'') alphaWorld))
     = invoiceTable alphaWorld"
    by (simp_all add: r errorResponse_def)
  have b: "map pjStatus (printJobTable (fst (printSingle brokenPdfEnv (requestFor ''7001'') alphaWorld)))
     = [''failed'']" by code_simp
  have c: "invoiceNumbers (fst (printSingle (goodEnv ''1730000000000'') (requestFor ''7001'') alphaWorld))
     = [''INV-1001'', ''INV-1002'', ''INV-1003'', ''INV-1004'']" by code_simp
  from f a b c show ?thesis by blast
qed

subsection \<open>Two requests at once\<close>

text \<open>Under every schedule the unique index keeps the invoice numbers of the table
  distinct.\<close>

lemma createInvoice_distinct:
  "distinct (invoiceNumbers w) \<Longrightarrow> createInvoice w row = Inr w1 \<Longrightarrow> distinct (invoiceNumbers w1)"
  by (auto simp: createInvoice_def invoiceNumbers_def split: if_splits)

lemma step_invoiceNumbers:
  assumes "distinct (invoiceNumbers w)" and "step env req (w, pc, l) = (w1, pc1, l1)"
  shows "distinct (invoiceNumbers w1)"
proof (cases pc)
  case CreateInvoice
  with assms show ?thesis
    by (auto simp: throwTo_def split: sum.splits dest: createInvoice_distinct)
next
  case StoreFile
  with assms show ?thesis
    by (auto simp: throwTo_def invoiceNumbers_def split: sum.splits prod.splits)
qed (use assms in \<open>auto simp: throwTo_def invoiceNumbers_def createPrintJob_def
        updatePrintJob_def Let_def split: sum.splits prod.splits option.splits\<close>)

lemma interleave_invoiceNumbers:
  assumes "distinct (invoiceNumbers (fst s))"
  shows "distinct (invoiceNumbers (fst (interleave a b schedule s)))"
  using assms
proof (induction schedule arbitrary: s)
  case Nil
  then show ?case by simp
next
  case (Cons second schedule)
  obtain w sa sb where s: "s = (w, sa, sb)" by (cases s)
  show ?case
  proof (cases second)
    case True
    obtain w1 pc1 l1 where st: "step (fst b) (snd b) (w, sb) = (w1, pc1, l1)"
      by (cases "step (fst b) (snd b) (w, sb)")
    from Cons.prems s have "distinct (invoiceNumbers w)" by simp
    from step_invoiceNumbers[OF this, of "fst b" "snd b" "fst sb" "snd sb" w1 pc1 l1] st
    have "distinct (invoiceNumbers w1)" by simp
    then have "distinct (invoiceNumbers (fst (interleave a b schedule (w1, sa, (pc1, l1)))))"
      by (intro Cons.IH) simp
    with True s st show ?thesis by simp
  next
    case False
    obtain w1 pc1 l1 where st: "step (fst a) (snd a) (w, sa) = (w1, pc1, l1)"
      by (cases "step (fst a) (snd a) (w, sa)")
    from Cons.prems s have "distinct (invoiceNumbers w)" by simp
    from step_invoiceNumbers[OF this, of "fst a" "snd a" "fst sa" "snd sa" w1 pc1 l1] st
    have "distinct (invoiceNumbers w1)" by simp
    then have "distinct (invoiceNumbers (fst (interleave a b schedule (w1, (pc1, l1), sb))))"
      by (intro Cons.IH) simp
    with False s st show ?thesis by simp
  qed
qed

lemma invoice_number_example:
  "makeInvoiceNumber (Some \<lparr> setShop = ''alpha.myshopify.com'', invoicePrefix = ''INV'',
                            invoiceStartNumber = 1001 \<rparr>) 3 = ''INV-1004''"
  by code_simp

text \<open>
  Claim C1 fails on the code. Two requests of one shop with three invoices, scheduled so
  that both count the invoices before either creates its record, both compute the number
  INV-1004, both render and store a PDF under that number, and the second is rejected by
  the unique index: its response is an error and its print job is failed, while its
  stored file stays. Run one after the other the two requests get INV-1004 and INV-1005.
\<close>

theorem C1_concurrent_requests_share_a_number:
  "raceSummary (twoRequests racingSchedule) =
     ((''INV-1004'', ''INV-1004''),
      (Some ''alpha.myshopify.com/1730000000000-invoice-INV-1004.pdf'',
       Some ''alpha.myshopify.com/1730000000001-invoice-INV-1004.pdf''),
      (Some (PrintOk
         \<lparr> respDownloadUrl =
             ''/api/download/alpha.myshopify.com%2F1730000000000-invoice-INV-1004.pdf'',
           respFileKey = ''alpha.myshopify.com/1730000000000-invoice-INV-1004.pdf'',
           respInvoiceNumber = ''INV-1004'', respJobId = 0, respPdf = ''%PDF INV-1004'',
           respFilename = Some ''invoice-INV-1004.pdf'' \<rparr>),
       Some (PrintError ''Unique constraint failed on the fields: (invoiceNumber)'' 500)),
      [''completed'', ''failed''],
      [''INV-1001'', ''INV-1002'', ''INV-1003'', ''INV-1004''])"
  by code_simp

lemma sequential_requests_get_consecutive_numbers:
  "raceSummary (twoRequests oneAfterTheOther) =
     ((''INV-1004'', ''INV-1005''),
      (Some ''alpha.myshopify.com/1730000000000-invoice-INV-1004.pdf'',
       Some ''alpha.myshopify.com/1730000000001-invoice-INV-1005.pdf''),
      (Some (PrintOk
         \<lparr> respDownloadUrl =
             ''/api/download/alpha.myshopify.com%2F1730000000000-invoice-INV-1004.pdf'',
           respFileKey = ''alpha.myshopify.com/1730000000000-invoice-INV-1004.pdf'',
           respInvoiceNumber = ''INV-1004'', respJobId = 0, respPdf = ''%PDF INV-1004'',
           respFilename = Some ''invoice-INV-1004.pdf'' \<rparr>),
       Some (PrintOk
         \<lparr> respDownloadUrl =
             ''/api/download/alpha.myshopify.com%2F1730000000001-invoice-INV-1005.pdf'',
           respFileKey = ''alpha.myshopify.com/1730000000001-invoice-INV-1005.pdf'',
           respInvoiceNumber = ''INV-1005'', respJobId = 1, respPdf = ''%PDF INV-1005'',
           respFilename = Some ''invoice-INV-1005.pdf'' \<rparr>)),
      [''completed'', ''completed''],
      [''INV-1001'', ''INV-1002'', ''INV-1003'', ''INV-1004'', ''INV-1005''])"
  by code_simp

end
